theory Spec2Isabelle
  imports Complex_Main "HOL-Library.Char_ord" "HOL-Library.List_Lexorder"
begin

section \<open>Exceptions\<close>

text \<open>
  An exception is a value. Each constructor carries the message that \<open>str(e)\<close> gives.
  \<open>HTTPStatusError\<close> (with its status code) and \<open>TransportError\<close> are the subclasses of
  \<open>httpx.HTTPError\<close>; \<open>RetryError\<close> is what the retry decorator raises once it gives up;
  \<open>CancelledError\<close> derives from \<open>BaseException\<close>, every other one from \<open>Exception\<close>.
\<close>

datatype exn =
    RuntimeError string
  | MigrationError string
  | FileNotFoundError string
  | HTTPStatusError nat string
  | TransportError string
  | GraphQLError string
  | JSONDecodeError string
  | RetryError exn
  | ZeroDivisionError
  | OtherError string
  | CancelledError

fun str_exn :: "exn \<Rightarrow> string" where
  "str_exn (RuntimeError m) = m"
| "str_exn (MigrationError m) = m"
| "str_exn (FileNotFoundError m) = m"
| "str_exn (HTTPStatusError c m) = m"
| "str_exn (TransportError m) = m"
| "str_exn (GraphQLError m) = m"
| "str_exn (JSONDecodeError m) = m"
| "str_exn (RetryError e) = ''RetryError''"
| "str_exn ZeroDivisionError = ''division by zero''"
| "str_exn (OtherError m) = m"
| "str_exn CancelledError = []"

fun is_Exception :: "exn \<Rightarrow> bool" where
  "is_Exception CancelledError = False"
| "is_Exception e = True"

fun is_HTTPError :: "exn \<Rightarrow> bool" where
  "is_HTTPError (HTTPStatusError c m) = True"
| "is_HTTPError (TransportError m) = True"
| "is_HTTPError e = False"

section \<open>The persistent state store (migrator/core/database.py)\<close>

text \<open>
  The SQLite store holds three tables: migration runs, documents and attachments.
  Timestamps are readings of the wall clock (\<open>datetime.utcnow()\<close>), modelled as natural
  numbers and handed to the operation that stamps them. Python integers are \<open>int\<close>,
  row ids are \<open>nat\<close>, \<open>Optional[...]\<close> is \<open>option\<close>.
\<close>

type_synonym datetime = nat

datatype DocumentStatus = PENDING | IN_PROGRESS | COMPLETED | FAILED | SKIPPED

datatype AttachmentStatus = ATT_PENDING | ATT_UPLOADED | ATT_FAILED | ATT_SKIPPED

record MigrationRun =
  run_id :: "nat option"
  started_at :: datetime
  completed_at :: "datetime option"
  total_documents :: int
  successful_documents :: int
  failed_documents :: int
  skipped_documents :: int
  total_attachments :: int
  successful_attachments :: int
  failed_attachments :: int
  configuration :: string
  error_log :: "string list"

record Document =
  doc_id :: string
  title :: string
  organization :: string
  status :: DocumentStatus
  superops_id :: "string option"
  error_message :: "string option"
  processed_at :: "datetime option"
  content_hash :: "string option"
  metadata :: "(string \<times> string) list"

record Attachment =
  att_id :: "nat option"
  document_id :: string
  filename :: string
  file_path :: string
  size_bytes :: int
  mime_type :: "string option"
  att_status :: AttachmentStatus
  att_superops_url :: "string option"
  att_error_message :: "string option"
  uploaded_at :: "datetime option"
  file_hash :: "string option"

text \<open>
  A table is the list of its rows. A document row and an attachment row carry the
  \<open>run_id\<close> column beside the record; \<open>run_seq\<close> and \<open>attachment_seq\<close> are the
  AUTOINCREMENT counters of the two integer keys.
\<close>

record Database =
  runs :: "MigrationRun list"
  documents :: "(nat \<times> Document) list"
  attachments :: "(nat \<times> Attachment) list"
  run_seq :: nat
  attachment_seq :: nat

definition empty_database :: Database where
  "empty_database =
     \<lparr>runs = [], documents = [], attachments = [], run_seq = 0, attachment_seq = 0\<rparr>"

definition create_migration_run ::
  "Database \<Rightarrow> datetime \<Rightarrow> int \<Rightarrow> string \<Rightarrow> MigrationRun \<times> Database" where
  "create_migration_run db now total_docs cfg =
     (let rid = Suc (run_seq db);
          run = \<lparr>run_id = Some rid, started_at = now, completed_at = None,
                 total_documents = total_docs, successful_documents = 0, failed_documents = 0,
                 skipped_documents = 0, total_attachments = 0, successful_attachments = 0,
                 failed_attachments = 0, configuration = cfg, error_log = []\<rparr>
      in (run, db\<lparr>runs := runs db @ [run], run_seq := rid\<rparr>))"

definition row_id :: "MigrationRun \<Rightarrow> nat" where
  "row_id r = (case run_id r of None \<Rightarrow> 0 | Some i \<Rightarrow> i)"

fun latest_run :: "MigrationRun list \<Rightarrow> MigrationRun option" where
  "latest_run [] = None"
| "latest_run (r # rs) =
     (case latest_run rs of
        None \<Rightarrow> Some r
      | Some r' \<Rightarrow> (if row_id r' < row_id r then Some r else Some r'))"

text \<open>\<open>SELECT * FROM migration_runs ORDER BY id DESC LIMIT 1\<close>.\<close>

definition get_latest_migration_run :: "Database \<Rightarrow> MigrationRun option" where
  "get_latest_migration_run db = latest_run (runs db)"

text \<open>
  \<open>UPDATE migration_runs SET completed_at, successful_documents, failed_documents,
  skipped_documents, successful_attachments, failed_attachments, error_log WHERE id = ?\<close>:
  the other columns keep their stored values, and a run without an id matches no row.
\<close>

definition update_run_row :: "MigrationRun \<Rightarrow> MigrationRun \<Rightarrow> MigrationRun" where
  "update_run_row run row =
     (if run_id run \<noteq> None \<and> run_id row = run_id run
      then row\<lparr>completed_at := completed_at run,
               successful_documents := successful_documents run,
               failed_documents := failed_documents run,
               skipped_documents := skipped_documents run,
               successful_attachments := successful_attachments run,
               failed_attachments := failed_attachments run,
               error_log := error_log run\<rparr>
      else row)"

definition update_migration_run :: "Database \<Rightarrow> MigrationRun \<Rightarrow> Database" where
  "update_migration_run db run = db\<lparr>runs := map (update_run_row run) (runs db)\<rparr>"

text \<open>\<open>INSERT OR REPLACE\<close> on the primary key \<open>id\<close>: a row with the same id is replaced.\<close>

definition add_document :: "Database \<Rightarrow> nat \<Rightarrow> Document \<Rightarrow> Database" where
  "add_document db rid document =
     db\<lparr>documents :=
          filter (\<lambda>row. doc_id (snd row) \<noteq> doc_id document) (documents db) @ [(rid, document)]\<rparr>"

text \<open>
  \<open>UPDATE documents SET status, superops_id, error_message, processed_at WHERE id = ?\<close>.
  The statement is executed and committed; the number of rows it touched is not read,
  so the function returns normally (\<open>Inr\<close>, with the store as the statement left it)
  in every case.
\<close>

definition update_document_row ::
  "datetime \<Rightarrow> string \<Rightarrow> DocumentStatus \<Rightarrow> string option \<Rightarrow> string option \<Rightarrow>
   nat \<times> Document \<Rightarrow> nat \<times> Document" where
  "update_document_row now document_id' st sid err row =
     (if doc_id (snd row) = document_id'
      then (fst row, (snd row)\<lparr>status := st, superops_id := sid, error_message := err,
                               processed_at := Some now\<rparr>)
      else row)"

definition update_document_status ::
  "Database \<Rightarrow> datetime \<Rightarrow> string \<Rightarrow> DocumentStatus \<Rightarrow> string option \<Rightarrow> string option \<Rightarrow>
   exn + Database" where
  "update_document_status db now document_id' st sid err =
     Inr (db\<lparr>documents := map (update_document_row now document_id' st sid err) (documents db)\<rparr>)"

text \<open>\<open>SELECT * FROM documents WHERE run_id = ? AND status = ? ORDER BY id\<close>.\<close>

definition get_documents_by_status ::
  "Database \<Rightarrow> nat option \<Rightarrow> DocumentStatus \<Rightarrow> Document list" where
  "get_documents_by_status db rid st =
     sort_key doc_id
       (map snd (filter (\<lambda>row. Some (fst row) = rid \<and> status (snd row) = st) (documents db)))"

definition add_attachment :: "Database \<Rightarrow> nat \<Rightarrow> Attachment \<Rightarrow> Attachment \<times> Database" where
  "add_attachment db rid attachment =
     (let aid = Suc (attachment_seq db);
          attachment' = attachment\<lparr>att_id := Some aid\<rparr>
      in (attachment',
          db\<lparr>attachments := attachments db @ [(rid, attachment')], attachment_seq := aid\<rparr>))"

definition update_attachment_row ::
  "datetime \<Rightarrow> nat \<Rightarrow> AttachmentStatus \<Rightarrow> string option \<Rightarrow> string option \<Rightarrow>
   nat \<times> Attachment \<Rightarrow> nat \<times> Attachment" where
  "update_attachment_row now aid st url err row =
     (if att_id (snd row) = Some aid
      then (fst row, (snd row)\<lparr>att_status := st, att_superops_url := url,
                               att_error_message := err,
                               uploaded_at := (if st = ATT_UPLOADED then Some now else None)\<rparr>)
      else row)"

definition update_attachment_status ::
  "Database \<Rightarrow> datetime \<Rightarrow> nat \<Rightarrow> AttachmentStatus \<Rightarrow> string option \<Rightarrow> string option \<Rightarrow>
   Database" where
  "update_attachment_status db now aid st url err =
     db\<lparr>attachments := map (update_attachment_row now aid st url err) (attachments db)\<rparr>"

text \<open>
  \<open>get_statistics\<close>: \<open>SELECT status, COUNT(*) FROM documents WHERE run_id = ? GROUP BY
  status\<close>, and the same for attachments. A status with no row has no entry in the
  resulting dictionary; \<open>stats_get\<close> is the dictionary's \<open>.get(status, 0)\<close>.
\<close>

definition count_documents :: "Database \<Rightarrow> nat option \<Rightarrow> DocumentStatus \<Rightarrow> int" where
  "count_documents db rid st =
     int (length (filter (\<lambda>row. Some (fst row) = rid \<and> status (snd row) = st) (documents db)))"

definition count_attachments :: "Database \<Rightarrow> nat option \<Rightarrow> AttachmentStatus \<Rightarrow> int" where
  "count_attachments db rid st =
     int (length (filter (\<lambda>row. Some (fst row) = rid \<and> att_status (snd row) = st)
                    (attachments db)))"

definition document_statistics :: "Database \<Rightarrow> nat option \<Rightarrow> (DocumentStatus \<times> int) list" where
  "document_statistics db rid =
     filter (\<lambda>p. snd p \<noteq> 0)
       (map (\<lambda>st. (st, count_documents db rid st))
          [PENDING, IN_PROGRESS, COMPLETED, FAILED, SKIPPED])"

definition attachment_statistics :: "Database \<Rightarrow> nat option \<Rightarrow> (AttachmentStatus \<times> int) list" where
  "attachment_statistics db rid =
     filter (\<lambda>p. snd p \<noteq> 0)
       (map (\<lambda>st. (st, count_attachments db rid st))
          [ATT_PENDING, ATT_UPLOADED, ATT_FAILED, ATT_SKIPPED])"

definition stats_get :: "('a \<times> int) list \<Rightarrow> 'a \<Rightarrow> int" where
  "stats_get stats st = (case map_of stats st of None \<Rightarrow> 0 | Some n \<Rightarrow> n)"

section \<open>The rate limiter (migrator/api/graphql\_client.py, RateLimiter)\<close>

text \<open>
  \<open>time.monotonic()\<close> is an input: \<open>acquire\<close> is given the readings that its successive
  calls of the clock return, and hands back those it did not use. Times and token counts
  are Python floats, modelled as real numbers. The result lists the sleeps the call
  performed, in seconds; \<open>AcquireWaiting\<close> says that the call was still in its loop when
  the given readings ran out. A float division by zero raises \<open>ZeroDivisionError\<close>.
\<close>

record RateLimiter =
  rate :: int
  per :: real
  tokens :: real
  updated_at :: real

definition RateLimiter_init :: "int \<Rightarrow> real \<Rightarrow> real \<Rightarrow> RateLimiter" where
  "RateLimiter_init rate' per' monotonic =
     \<lparr>rate = rate', per = per', tokens = real_of_int rate', updated_at = monotonic\<rparr>"

datatype acquired =
    Acquired RateLimiter "real list" "real list"
  | AcquireRaises exn
  | AcquireWaiting

fun acquire_loop :: "RateLimiter \<Rightarrow> real list \<Rightarrow> real list \<Rightarrow> acquired" where
  "acquire_loop l clock sleeps =
     (if tokens l \<le> 0 then
        (case clock of
           [] \<Rightarrow> AcquireWaiting
         | now # clock' \<Rightarrow>
             if per l = 0 then AcquireRaises ZeroDivisionError
             else
               let elapsed = now - updated_at l;
                   tokens_to_add = elapsed * (real_of_int (rate l) / per l);
                   l' = l\<lparr>tokens := min (real_of_int (rate l)) (tokens l + tokens_to_add),
                          updated_at := now\<rparr>
               in if tokens l' \<le> 0 then
                    (if real_of_int (rate l) / per l = 0 then AcquireRaises ZeroDivisionError
                     else acquire_loop l' clock'
                            (sleeps @ [1 / (real_of_int (rate l) / per l)]))
                  else acquire_loop l' clock' sleeps)
      else Acquired l sleeps clock)"

declare acquire_loop.simps [simp del]

definition acquire :: "RateLimiter \<Rightarrow> real list \<Rightarrow> acquired" where
  "acquire l clock =
     (case acquire_loop l clock [] of
        Acquired l' sleeps clock' \<Rightarrow> Acquired (l'\<lparr>tokens := tokens l' - 1\<rparr>) sleeps clock'
      | r \<Rightarrow> r)"

text \<open>\<open>acquire_n n\<close>: \<open>n\<close> calls of \<open>acquire\<close> one after the other, with all their sleeps.\<close>

fun acquire_n :: "nat \<Rightarrow> RateLimiter \<Rightarrow> real list \<Rightarrow> acquired" where
  "acquire_n 0 l clock = Acquired l [] clock"
| "acquire_n (Suc n) l clock =
     (case acquire l clock of
        Acquired l' sleeps clock' \<Rightarrow>
          (case acquire_n n l' clock' of
             Acquired l'' sleeps' clock'' \<Rightarrow> Acquired l'' (sleeps @ sleeps') clock''
           | r \<Rightarrow> r)
      | r \<Rightarrow> r)"

section \<open>Requests and the retry decorator (graphql\_client.py, rest\_client.py)\<close>

text \<open>
  What the server does with one HTTP request is an input: either no response arrives
  (a transport error of httpx), or a response with a status code and a body. A body is
  not JSON, or a JSON object with its \<open>errors\<close> entry (if it has one) and its \<open>data\<close> entry
  (if it has one).
\<close>

datatype 'd body = NotJson | JsonObject "string list option" "'d option"

datatype 'd http_reply = ConnectionFailed string | Response nat "'d body"

definition is_success :: "nat \<Rightarrow> bool" where
  "is_success code = (200 \<le> code \<and> code < 300)"

definition digit :: "nat \<Rightarrow> char" where
  "digit n = ''0123456789'' ! n"

function str_nat :: "nat \<Rightarrow> string" where
  "str_nat n = (if n < 10 then [digit n] else str_nat (n div 10) @ [digit (n mod 10)])"
  by pat_completeness auto
termination
  by (relation "measure id") auto

declare str_nat.simps [simp del]

definition str_int :: "int \<Rightarrow> string" where
  "str_int i = (if i < 0 then CHR ''-'' # str_nat (nat (- i)) else str_nat (nat i))"

text \<open>
  One attempt of \<open>_execute\<close>, the body of the decorated function. \<open>raise_for_status\<close>
  raises \<open>HTTPStatusError\<close> unless the status is a success; the handler turns it into a
  \<open>GraphQLError\<close> when the error body is JSON with an \<open>errors\<close> entry and re-raises it
  otherwise. The result is \<open>data.get("data", {})\<close>, \<open>None\<close> standing for the empty dictionary.
\<close>

definition execute_once :: "bool \<Rightarrow> string \<Rightarrow> 'd http_reply \<Rightarrow> exn + 'd option" where
  "execute_once client_ready operation_name reply =
     (if \<not> client_ready
      then Inl (RuntimeError ''Client not initialized. Use async context manager.'')
      else case reply of
        ConnectionFailed m \<Rightarrow> Inl (TransportError m)
      | Response code b \<Rightarrow>
          if is_success code then
            (case b of
               NotJson \<Rightarrow> Inl (JSONDecodeError ''Expecting value'')
             | JsonObject (Some errors) d \<Rightarrow>
                 Inl (GraphQLError (''GraphQL errors in '' @ operation_name))
             | JsonObject None d \<Rightarrow> Inr d)
          else
            (case b of
               JsonObject (Some errors) d \<Rightarrow>
                 Inl (GraphQLError (''HTTP '' @ str_nat code @ '': '' @ operation_name))
             | _ \<Rightarrow> Inl (HTTPStatusError code (''HTTP status '' @ str_nat code))))"

text \<open>
  The decorator \<open>@retry(retry=retry_if_exception_type(httpx.HTTPError),
  stop=stop_after_attempt(3), wait=wait_exponential(multiplier=2, min=4, max=60))\<close> of the
  tenacity library: an attempt that returns ends the call; an attempt that raises an
  exception that is no \<open>httpx.HTTPError\<close> ends it with that exception; after an
  \<open>httpx.HTTPError\<close> the call stops with \<open>RetryError\<close> if this was the third attempt, and
  otherwise sleeps \<open>wait_exponential attempt_number\<close> seconds and tries again.
  \<open>retrying k n f\<close> runs attempt number \<open>n\<close> with \<open>k\<close> further attempts allowed; \<open>f n\<close> is
  the outcome of attempt \<open>n\<close>. The result is the outcome, the number of attempts made and
  the sleeps between them.
\<close>

definition wait_exponential :: "nat \<Rightarrow> real" where
  "wait_exponential attempt_number =
     max (max 0 4) (min (2 * 2 ^ (attempt_number - 1)) 60)"

primrec retrying :: "nat \<Rightarrow> nat \<Rightarrow> (nat \<Rightarrow> exn + 'a) \<Rightarrow> (exn + 'a) \<times> nat \<times> real list" where
  "retrying 0 n f =
     (case f n of
        Inr v \<Rightarrow> (Inr v, n, [])
      | Inl e \<Rightarrow> (if is_HTTPError e then (Inl (RetryError e), n, []) else (Inl e, n, [])))"
| "retrying (Suc k) n f =
     (case f n of
        Inr v \<Rightarrow> (Inr v, n, [])
      | Inl e \<Rightarrow>
          (if is_HTTPError e
           then (case retrying k (Suc n) f of
                   (r, m, waits) \<Rightarrow> (r, m, wait_exponential n # waits))
           else (Inl e, n, [])))"

definition stop_after_attempt_3 :: "(nat \<Rightarrow> exn + 'a) \<Rightarrow> (exn + 'a) \<times> nat \<times> real list" where
  "stop_after_attempt_3 f = retrying 2 1 f"

text \<open>\<open>_execute\<close>: \<open>replies n\<close> is what the server does with the request of attempt \<open>n\<close>.\<close>

definition execute ::
  "bool \<Rightarrow> string \<Rightarrow> (nat \<Rightarrow> 'd http_reply) \<Rightarrow> (exn + 'd option) \<times> nat \<times> real list" where
  "execute client_ready operation_name replies =
     stop_after_attempt_3 (\<lambda>n. execute_once client_ready operation_name (replies n))"

subsection \<open>The attachment client (migrator/api/rest\_client.py)\<close>

record AttachmentUploadResult =
  success :: bool
  result_filename :: string
  original_filename :: string
  file_size :: int
  url :: "string option"
  error :: "string option"

text \<open>One entry of the \<open>data\<close> list of an upload response; each key may be absent.\<close>

record file_info =
  fileName :: "string option"
  originalFileName :: "string option"
  fileSize :: "int option"
  fi_url :: "string option"

definition failed_upload :: "string \<Rightarrow> int \<Rightarrow> string \<Rightarrow> AttachmentUploadResult" where
  "failed_upload name size' message =
     \<lparr>success = False, result_filename = name, original_filename = name, file_size = size',
      url = None, error = Some message\<rparr>"

definition uploaded :: "string \<Rightarrow> int \<Rightarrow> file_info \<Rightarrow> AttachmentUploadResult" where
  "uploaded name size' info =
     \<lparr>success = True,
      result_filename = (case fileName info of None \<Rightarrow> name | Some v \<Rightarrow> v),
      original_filename = (case originalFileName info of None \<Rightarrow> name | Some v \<Rightarrow> v),
      file_size = (case fileSize info of None \<Rightarrow> size' | Some v \<Rightarrow> v),
      url = fi_url info, error = None\<rparr>"

text \<open>
  One attempt of \<open>_upload_simple\<close>: an \<open>HTTPStatusError\<close> is caught and becomes a failed
  result; any other exception leaves the function.
\<close>

definition upload_simple_once ::
  "bool \<Rightarrow> string \<Rightarrow> int \<Rightarrow> file_info list http_reply \<Rightarrow> exn + AttachmentUploadResult" where
  "upload_simple_once client_ready name size' reply =
     (if \<not> client_ready then Inl (RuntimeError ''Client not initialized'')
      else case reply of
        ConnectionFailed m \<Rightarrow> Inl (TransportError m)
      | Response code b \<Rightarrow>
          if \<not> is_success code then Inr (failed_upload name size' (''HTTP '' @ str_nat code))
          else
            (case b of
               NotJson \<Rightarrow> Inl (JSONDecodeError ''Expecting value'')
             | JsonObject errors (Some (info # infos)) \<Rightarrow> Inr (uploaded name size' info)
             | JsonObject errors _ \<Rightarrow> Inr (failed_upload name size' ''No file data in response'')))"

definition upload_simple ::
  "bool \<Rightarrow> string \<Rightarrow> int \<Rightarrow> (nat \<Rightarrow> file_info list http_reply) \<Rightarrow>
   (exn + AttachmentUploadResult) \<times> nat \<times> real list" where
  "upload_simple client_ready name size' replies =
     stop_after_attempt_3 (\<lambda>n. upload_simple_once client_ready name size' (replies n))"

text \<open>
  The client's state: the size limit, whether the HTTP client is open, the cache from
  content hash to URL, and the number of upload requests sent so far. \<open>server k\<close> is what
  the server does with upload request number \<open>k\<close> (counted from 0); \<open>sha256\<close> is the hash
  function. The semaphore that bounds concurrent uploads does not change results and is
  left out; so is the MIME type, which only travels with the request.
\<close>

record AttachmentClient =
  max_file_size :: int
  client_open :: bool
  file_cache :: "string \<rightharpoonup> string"
  upload_requests :: nat

text \<open>\<open>_upload_bytes_internal\<close>: one request, no retry; every exception of the request
  becomes a failed result.\<close>

definition upload_bytes_internal ::
  "(nat \<Rightarrow> file_info list http_reply) \<Rightarrow> AttachmentClient \<Rightarrow> 'b list \<Rightarrow> string \<Rightarrow>
   (exn + AttachmentUploadResult) \<times> AttachmentClient" where
  "upload_bytes_internal server c data name =
     (if \<not> client_open c then (Inl (RuntimeError ''Client not initialized''), c)
      else
        let c' = c\<lparr>upload_requests := Suc (upload_requests c)\<rparr>;
            size' = int (length data)
        in case server (upload_requests c) of
             ConnectionFailed m \<Rightarrow> (Inr (failed_upload name size' m), c')
           | Response code b \<Rightarrow>
               if \<not> is_success code
               then (Inr (failed_upload name size' (''HTTP status '' @ str_nat code)), c')
               else
                 (case b of
                    NotJson \<Rightarrow> (Inr (failed_upload name size' ''Expecting value''), c')
                  | JsonObject errors (Some (info # infos)) \<Rightarrow> (Inr (uploaded name size' info), c')
                  | JsonObject errors _ \<Rightarrow>
                      (Inr (failed_upload name size' ''No file data in response''), c')))"

text \<open>Python's truth value of an optional string: \<open>None\<close> and the empty string are false.\<close>

definition truthy :: "string option \<Rightarrow> bool" where
  "truthy v = (case v of None \<Rightarrow> False | Some x \<Rightarrow> x \<noteq> [])"

definition upload_bytes ::
  "(nat \<Rightarrow> file_info list http_reply) \<Rightarrow> ('b list \<Rightarrow> string) \<Rightarrow> AttachmentClient \<Rightarrow>
   'b list \<Rightarrow> string \<Rightarrow> (exn + AttachmentUploadResult) \<times> AttachmentClient" where
  "upload_bytes server sha256 c data name =
     (let size' = int (length data) in
      if size' > max_file_size c
      then (Inr (failed_upload name size' (''Data too large: '' @ str_int size' @ '' bytes'')), c)
      else
        let data_hash = sha256 data in
        case file_cache c data_hash of
          Some cached \<Rightarrow>
            (Inr \<lparr>success = True, result_filename = name, original_filename = name,
                  file_size = size', url = Some cached, error = None\<rparr>, c)
        | None \<Rightarrow>
            (case upload_bytes_internal server c data name of
               (Inl e, c') \<Rightarrow> (Inl e, c')
             | (Inr result, c') \<Rightarrow>
                 (Inr result,
                  if success result \<and> truthy (url result)
                  then c'\<lparr>file_cache := (file_cache c')(data_hash \<mapsto> the (url result))\<rparr>
                  else c')))"

section \<open>The source index (migrator/parsers/csv\_parser.py)\<close>

record DocumentMetadata =
  md_id :: string
  md_organization :: string
  md_name :: string
  expires_on :: "datetime option"
  owner :: "string option"
  publisher :: "string option"
  locator :: string
  is_public :: bool
  archived :: bool
  help_center :: bool
  related_documents :: "string list"
  md_file_path :: "string option"

text \<open>
  The metadata cache is a Python dictionary from locator to metadata; it iterates in
  insertion order, so it is the list of its items. \<open>build_dependency_graph\<close> maps each
  locator to the set of its related documents; the set is the list without repetitions
  (Python leaves the iteration order of a set open).
\<close>

type_synonym metadata_dict = "(string \<times> DocumentMetadata) list"

definition build_dependency_graph :: "metadata_dict \<Rightarrow> (string \<times> string list) list" where
  "build_dependency_graph cache = map (\<lambda>item. (fst item, remdups (related_documents (snd item)))) cache"

text \<open>
  \<open>visit\<close> of \<open>get_migration_order\<close>, with its two mutable variables, the set \<open>visited\<close> and
  the list \<open>order\<close>, as a pair. The first argument bounds the depth of the recursion; the
  result is \<open>None\<close> when the bound is reached.
\<close>

fun for_each :: "('a \<Rightarrow> 's \<Rightarrow> 's option) \<Rightarrow> 'a list \<Rightarrow> 's \<Rightarrow> 's option" where
  "for_each f [] s = Some s"
| "for_each f (x # xs) s = (case f x s of None \<Rightarrow> None | Some s' \<Rightarrow> for_each f xs s')"

primrec visit ::
  "nat \<Rightarrow> (string \<times> string list) list \<Rightarrow> string \<Rightarrow> string list \<times> string list \<Rightarrow>
   (string list \<times> string list) option" where
  "visit 0 graph node s = None"
| "visit (Suc depth) graph node s =
     (if node \<in> set (fst s) then Some s
      else case for_each (visit depth graph)
                  (case map_of graph node of None \<Rightarrow> [] | Some deps \<Rightarrow> deps)
                  (node # fst s, snd s) of
             None \<Rightarrow> None
           | Some s' \<Rightarrow> Some (fst s', snd s' @ [node]))"

text \<open>
  A nested call of \<open>visit\<close> that does not return at once has marked one more locator, so
  the depth never exceeds the number of locators by more than one.
\<close>

definition get_migration_order :: "metadata_dict \<Rightarrow> string list option" where
  "get_migration_order cache =
     map_option snd
       (for_each (visit (Suc (length cache)) (build_dependency_graph cache))
          (map fst cache) ([], []))"

section \<open>The GraphQL client's operations (migrator/api/graphql\_client.py)\<close>

text \<open>
  A request is recorded in the client's list of calls. The server is an input: given the
  calls made so far (the current one last) and the number of the attempt, it says what
  happens to the request. The \<open>data\<close> entry of a response has up to three entries, one per
  operation; an entry that is absent, or an empty dictionary, is \<open>None\<close>.
\<close>

datatype gql_call =
    GetKbItems nat nat
  | CreateKbCollection string
  | CreateKbArticle string string "string option"

record kb_item =
  itemId :: "string option"
  item_name :: "string option"
  itemType :: "string option"

record gql_data =
  getKbItems :: "kb_item list option"
  createKbCollection :: "kb_item option"
  createKbArticle :: "kb_item option"

record GraphQLClient =
  gql_open :: bool
  categories_cache :: "string \<rightharpoonup> string"
  calls :: "gql_call list"

type_synonym gql_server = "gql_call list \<Rightarrow> nat \<Rightarrow> gql_data http_reply"

fun operation_name :: "gql_call \<Rightarrow> string" where
  "operation_name (GetKbItems page page_size) = ''getKbItems''"
| "operation_name (CreateKbCollection n) = ''createKbCollection''"
| "operation_name (CreateKbArticle t c p) = ''createKbArticle''"

definition gql_execute ::
  "gql_server \<Rightarrow> GraphQLClient \<Rightarrow> gql_call \<Rightarrow> (exn + gql_data option) \<times> GraphQLClient" where
  "gql_execute server gc call =
     (fst (execute (gql_open gc) (operation_name call) (server (calls gc @ [call]))),
      gc\<lparr>calls := calls gc @ [call]\<rparr>)"

definition or_empty :: "string option \<Rightarrow> string" where
  "or_empty v = (case v of None \<Rightarrow> [] | Some x \<Rightarrow> x)"

definition get_kb_categories ::
  "gql_server \<Rightarrow> GraphQLClient \<Rightarrow> (exn + kb_item list) \<times> GraphQLClient" where
  "get_kb_categories server gc =
     (case gql_execute server gc (GetKbItems 1 100) of
        (Inl e, gc1) \<Rightarrow> (Inl e, gc1)
      | (Inr d, gc1) \<Rightarrow>
          let all_items = (case d of None \<Rightarrow> []
                           | Some d' \<Rightarrow> (case getKbItems d' of None \<Rightarrow> [] | Some xs \<Rightarrow> xs));
              collections = filter (\<lambda>item. itemType item = Some ''COLLECTION'') all_items;
              cache = fold (\<lambda>c m. m(or_empty (item_name c) \<mapsto> or_empty (itemId c)))
                        collections (categories_cache gc1)
          in (Inr collections, gc1\<lparr>categories_cache := cache\<rparr>))"

definition create_kb_category ::
  "gql_server \<Rightarrow> GraphQLClient \<Rightarrow> string \<Rightarrow> (exn + kb_item option) \<times> GraphQLClient" where
  "create_kb_category server gc name =
     (case gql_execute server gc (CreateKbCollection name) of
        (Inl e, gc1) \<Rightarrow> (Inl e, gc1)
      | (Inr d, gc1) \<Rightarrow>
          (case (case d of None \<Rightarrow> None | Some d' \<Rightarrow> createKbCollection d') of
             None \<Rightarrow> (Inr None, gc1)
           | Some collection \<Rightarrow>
               (Inr (Some collection),
                gc1\<lparr>categories_cache :=
                      (categories_cache gc1)
                        ((case item_name collection of None \<Rightarrow> name | Some n \<Rightarrow> n)
                           \<mapsto> or_empty (itemId collection))\<rparr>)))"

definition get_or_create_category ::
  "gql_server \<Rightarrow> GraphQLClient \<Rightarrow> string \<Rightarrow> (exn + string option) \<times> GraphQLClient" where
  "get_or_create_category server gc name =
     (case categories_cache gc name of
        Some cached \<Rightarrow> (Inr (Some cached), gc)
      | None \<Rightarrow>
          (case get_kb_categories server gc of
             (Inl e, gc1) \<Rightarrow> (Inl e, gc1)
           | (Inr categories, gc1) \<Rightarrow>
               (case find (\<lambda>c. item_name c = Some name) categories of
                  Some c \<Rightarrow> (Inr (itemId c), gc1)
                | None \<Rightarrow>
                    (case create_kb_category server gc1 name of
                       (Inl e, gc2) \<Rightarrow> (Inl e, gc2)
                     | (Inr None, gc2) \<Rightarrow> (Inr (Some []), gc2)
                     | (Inr (Some c), gc2) \<Rightarrow> (Inr (Some (or_empty (itemId c))), gc2)))))"

definition create_kb_article ::
  "gql_server \<Rightarrow> GraphQLClient \<Rightarrow> string \<Rightarrow> string \<Rightarrow> string option \<Rightarrow>
   (exn + kb_item) \<times> GraphQLClient" where
  "create_kb_article server gc title' content category_id =
     (case (if truthy category_id then (Inr category_id, gc)
            else get_or_create_category server gc ''General'') of
        (Inl e, gc1) \<Rightarrow> (Inl e, gc1)
      | (Inr parent, gc1) \<Rightarrow>
          (case gql_execute server gc1 (CreateKbArticle title' content parent) of
             (Inl e, gc2) \<Rightarrow> (Inl e, gc2)
           | (Inr d, gc2) \<Rightarrow>
               (case (case d of None \<Rightarrow> None | Some d' \<Rightarrow> createKbArticle d') of
                  None \<Rightarrow> (Inl (GraphQLError ''Failed to create article: Empty response''), gc2)
                | Some article \<Rightarrow> (Inr article, gc2))))"

section \<open>File uploads of the attachment client (rest\_client.py)\<close>

definition path_name :: "string \<Rightarrow> string" where
  "path_name p = rev (takeWhile (\<lambda>c. c \<noteq> CHR ''/'') (rev p))"

text \<open>
  \<open>upload_file\<close>: \<open>read_file\<close> gives the bytes of a file, \<open>None\<close> when it does not exist. The
  image optimisation changes only the bytes that travel. Each attempt of the retried
  \<open>_upload_simple\<close> is one more request to the server.
\<close>

definition upload_file ::
  "(nat \<Rightarrow> file_info list http_reply) \<Rightarrow> (string \<Rightarrow> string) \<Rightarrow> (string \<Rightarrow> string option) \<Rightarrow>
   AttachmentClient \<Rightarrow> string \<Rightarrow> (exn + AttachmentUploadResult) \<times> AttachmentClient" where
  "upload_file server sha256 read_file c path =
     (case read_file path of
        None \<Rightarrow> (Inr (failed_upload (path_name path) 0 (''File not found: '' @ path)), c)
      | Some bytes \<Rightarrow>
          let size' = int (length bytes) in
          if size' > max_file_size c
          then (Inr (failed_upload (path_name path) size'
                       (''File too large: '' @ str_int size' @ '' bytes (max: ''
                          @ str_int (max_file_size c) @ '')'')), c)
          else
            let file_hash' = sha256 bytes in
            case file_cache c file_hash' of
              Some cached \<Rightarrow>
                (Inr \<lparr>success = True, result_filename = path_name path,
                      original_filename = path_name path, file_size = size',
                      url = Some cached, error = None\<rparr>, c)
            | None \<Rightarrow>
                (case upload_simple (client_open c) (path_name path) size'
                        (\<lambda>n. server (upload_requests c + (n - 1))) of
                   (r, attempts, waits) \<Rightarrow>
                     let c' = c\<lparr>upload_requests :=
                                  upload_requests c + (if client_open c then attempts else 0)\<rparr>
                     in case r of
                          Inl e \<Rightarrow> (Inl e, c')
                        | Inr result \<Rightarrow>
                            (Inr result,
                             if success result \<and> truthy (url result)
                             then c'\<lparr>file_cache := (file_cache c')(file_hash' \<mapsto> the (url result))\<rparr>
                             else c')))"

text \<open>\<open>upload_base64_image\<close>: every exception, of the decoding or of the upload, becomes a
  failed result.\<close>

definition upload_base64_image ::
  "(nat \<Rightarrow> file_info list http_reply) \<Rightarrow> (string \<Rightarrow> string) \<Rightarrow> (string \<Rightarrow> string option) \<Rightarrow>
   AttachmentClient \<Rightarrow> string \<Rightarrow> string \<Rightarrow> AttachmentUploadResult \<times> AttachmentClient" where
  "upload_base64_image server sha256 b64decode c base64 name =
     (case b64decode base64 of
        None \<Rightarrow> (failed_upload name 0 ''Failed to decode base64: Incorrect padding'', c)
      | Some image_data \<Rightarrow>
          (case upload_bytes server sha256 c image_data name of
             (Inl e, c') \<Rightarrow> (failed_upload name 0 (''Failed to decode base64: '' @ str_exn e), c')
           | (Inr result, c') \<Rightarrow> (result, c')))"

section \<open>The orchestrator (migrator/core/orchestrator.py)\<close>

record TransformedAttachment =
  ta_filename :: string
  original_path :: string
  ta_superops_url :: "string option"
  ta_size_bytes :: int
  ta_mime_type :: "string option"
  needs_upload :: bool
  is_embedded :: bool
  base64_data :: "string option"

record TransformedDocument =
  td_title :: string
  content_html :: string
  category :: "string option"
  tags :: "string list"
  td_attachments :: "TransformedAttachment list"
  td_metadata :: "(string \<times> string) list"
  validation_errors :: "string list"

record MigrationConfig =
  batch_size :: nat
  skip_existing :: bool
  dry_run :: bool
  continue_on_error :: bool

text \<open>
  The collaborators of the orchestrator are inputs: the file system, the HTML parser and
  its validation, the content transformer, the regular-expression search of the filter,
  the paginated title search \<open>check_article_exists\<close> (read-only queries), the two servers,
  the hash function and the base64 decoder. \<open>'p\<close> is the type of a parsed document.
\<close>

record 'p env =
  path_exists :: "string \<Rightarrow> bool"
  file_bytes :: "string \<Rightarrow> string option"
  parse_document :: "string \<Rightarrow> exn + 'p"
  validate_document :: "'p \<Rightarrow> string list"
  transform_document :: "'p \<Rightarrow> string \<Rightarrow> exn + TransformedDocument"
  update_image_references :: "string \<Rightarrow> TransformedAttachment list \<Rightarrow> string"
  regex_search :: "string \<Rightarrow> string \<Rightarrow> bool"
  check_article_exists :: "string \<Rightarrow> exn + string option"
  gql_server :: gql_server
  upload_server :: "nat \<Rightarrow> file_info list http_reply"
  sha256_hexdigest :: "string \<Rightarrow> string"
  base64_b64decode :: "string \<Rightarrow> string option"

text \<open>
  The orchestrator's state. \<open>utcnow\<close> is the wall clock: every reading of it is stamped
  and moves it on by one tick.
\<close>

record Orchestrator =
  config :: MigrationConfig
  database :: Database
  graphql_client :: GraphQLClient
  attachment_client :: AttachmentClient
  current_run :: "MigrationRun option"
  metadata_cache :: metadata_dict
  category_cache :: "string \<rightharpoonup> string option"
  shutdown_event :: bool
  utcnow :: datetime

type_synonym 'a outcome = "(exn + 'a) \<times> Orchestrator"

definition set_document_status ::
  "Orchestrator \<Rightarrow> string \<Rightarrow> DocumentStatus \<Rightarrow> string option \<Rightarrow> string option \<Rightarrow> unit outcome" where
  "set_document_status st d s sid err =
     (case update_document_status (database st) (utcnow st) d s sid err of
        Inl e \<Rightarrow> (Inl e, st\<lparr>utcnow := Suc (utcnow st)\<rparr>)
      | Inr db \<Rightarrow> (Inr (), st\<lparr>database := db, utcnow := Suc (utcnow st)\<rparr>))"

definition set_attachment_status ::
  "Orchestrator \<Rightarrow> nat \<Rightarrow> AttachmentStatus \<Rightarrow> string option \<Rightarrow> string option \<Rightarrow> Orchestrator" where
  "set_attachment_status st aid s u err =
     st\<lparr>database := update_attachment_status (database st) (utcnow st) aid s u err,
        utcnow := Suc (utcnow st)\<rparr>"

definition save_run :: "Orchestrator \<Rightarrow> MigrationRun \<Rightarrow> Orchestrator" where
  "save_run st run =
     st\<lparr>current_run := Some run, database := update_migration_run (database st) run\<rparr>"

subsection \<open>\<open>_handle_document_error\<close>\<close>

definition handle_document_error :: "Document \<Rightarrow> exn \<Rightarrow> Orchestrator \<Rightarrow> unit outcome" where
  "handle_document_error document e st =
     (let error_message' = str_exn e in
      case set_document_status st (doc_id document) FAILED None (Some error_message') of
        (Inl e', st1) \<Rightarrow> (Inl e', st1)
      | (Inr u, st1) \<Rightarrow>
          let st2 = (case current_run st1 of
                       None \<Rightarrow> st1
                     | Some run \<Rightarrow>
                         save_run st1
                           (run\<lparr>failed_documents := failed_documents run + 1,
                                error_log := error_log run
                                  @ [doc_id document @ '': '' @ error_message']\<rparr>))
          in (Inr (), if \<not> continue_on_error (config st2)
                      then st2\<lparr>shutdown_event := True\<rparr> else st2))"

subsection \<open>\<open>_upload_attachments\<close>\<close>

text \<open>
  One turn of the loop over the attachments. The attachment object is mutable: the turn
  returns it with the URL it may have received. An attachment row cannot be inserted for a
  run without an id (the column is NOT NULL); that exception, like every other one of
  the turn, is caught and counted as a failed attachment.
\<close>

definition upload_one ::
  "'p env \<Rightarrow> string \<Rightarrow> MigrationRun \<Rightarrow> TransformedAttachment \<Rightarrow> Orchestrator \<Rightarrow>
   TransformedAttachment \<times> Orchestrator" where
  "upload_one env document_id' run0 att st =
     (let bump_failed = (\<lambda>s. case current_run s of
                               None \<Rightarrow> s
                             | Some r \<Rightarrow> s\<lparr>current_run :=
                                 Some (r\<lparr>failed_attachments := failed_attachments r + 1\<rparr>)\<rparr>);
          bump_successful = (\<lambda>s. case current_run s of
                               None \<Rightarrow> s
                             | Some r \<Rightarrow> s\<lparr>current_run :=
                                 Some (r\<lparr>successful_attachments := successful_attachments r + 1\<rparr>)\<rparr>)
      in case run_id run0 of
        None \<Rightarrow> (att, bump_failed st)
      | Some rid \<Rightarrow>
          (case add_attachment (database st) rid
                  \<lparr>att_id = None, document_id = document_id', filename = ta_filename att,
                   file_path = original_path att, size_bytes = ta_size_bytes att,
                   mime_type = ta_mime_type att, att_status = ATT_PENDING,
                   att_superops_url = None, att_error_message = None, uploaded_at = None,
                   file_hash = None\<rparr> of
             (attachment, db1) \<Rightarrow>
               let st1 = st\<lparr>database := db1\<rparr>;
                   aid = (case att_id attachment of None \<Rightarrow> 0 | Some i \<Rightarrow> i);
                   recorded = (\<lambda>s result.
                     if success result
                     then (att\<lparr>ta_superops_url := url result\<rparr>,
                           bump_successful (set_attachment_status s aid ATT_UPLOADED (url result) None))
                     else (att, bump_failed (set_attachment_status s aid ATT_FAILED None (error result))));
                   raised = (\<lambda>s e.
                     (att, bump_failed (set_attachment_status s aid ATT_FAILED None (Some (str_exn e)))))
               in if needs_upload att \<and> \<not> truthy (ta_superops_url att) then
                    (if is_embedded att \<and> truthy (base64_data att) then
                       (case upload_base64_image (upload_server env) (sha256_hexdigest env) (base64_b64decode env)
                               (attachment_client st1) (the (base64_data att)) (ta_filename att) of
                          (result, ac) \<Rightarrow> recorded (st1\<lparr>attachment_client := ac\<rparr>) result)
                     else if path_exists env (original_path att) then
                       (case upload_file (upload_server env) (sha256_hexdigest env) (file_bytes env)
                               (attachment_client st1) (original_path att) of
                          (Inr result, ac) \<Rightarrow> recorded (st1\<lparr>attachment_client := ac\<rparr>) result
                        | (Inl e, ac) \<Rightarrow> raised (st1\<lparr>attachment_client := ac\<rparr>) e)
                     else raised st1
                            (FileNotFoundError (''Attachment not found: '' @ original_path att)))
                  else if truthy (ta_superops_url att) then
                    (att, bump_successful
                            (set_attachment_status st1 aid ATT_UPLOADED (ta_superops_url att) None))
                  else (att, st1)))"

fun upload_each ::
  "'p env \<Rightarrow> string \<Rightarrow> MigrationRun \<Rightarrow> TransformedAttachment list \<Rightarrow> Orchestrator \<Rightarrow>
   TransformedAttachment list \<times> Orchestrator" where
  "upload_each env d run0 [] st = ([], st)"
| "upload_each env d run0 (att # atts) st =
     (case upload_one env d run0 att st of
        (att', st1) \<Rightarrow>
          (case upload_each env d run0 atts st1 of
             (atts', st2) \<Rightarrow> (att' # atts', st2)))"

definition upload_attachments ::
  "'p env \<Rightarrow> string \<Rightarrow> TransformedAttachment list \<Rightarrow> Orchestrator \<Rightarrow>
   TransformedAttachment list \<times> Orchestrator" where
  "upload_attachments env d atts st =
     (case current_run st of
        None \<Rightarrow> (atts, st)
      | Some run0 \<Rightarrow> upload_each env d run0 atts st)"

text \<open>
  \<open>ContentTransformer.upload_attachments\<close>, called right after: it uploads once more every
  attachment that still needs an upload and has no URL, and touches neither the store nor
  the run.
\<close>

definition transformer_upload_one ::
  "'p env \<Rightarrow> TransformedAttachment \<Rightarrow> AttachmentClient \<Rightarrow> TransformedAttachment \<times> AttachmentClient" where
  "transformer_upload_one env att ac =
     (let taken = (\<lambda>result.
            if success result \<and> truthy (url result)
            then att\<lparr>ta_superops_url := url result, needs_upload := False\<rparr> else att)
      in if \<not> needs_upload att \<or> truthy (ta_superops_url att) then (att, ac)
         else if is_embedded att \<and> truthy (base64_data att) then
           (case upload_base64_image (upload_server env) (sha256_hexdigest env) (base64_b64decode env) ac
                   (the (base64_data att)) (ta_filename att) of
              (result, ac') \<Rightarrow> (taken result, ac'))
         else if path_exists env (original_path att) then
           (case upload_file (upload_server env) (sha256_hexdigest env) (file_bytes env) ac
                   (original_path att) of
              (Inr result, ac') \<Rightarrow> (taken result, ac')
            | (Inl e, ac') \<Rightarrow> (att, ac'))
         else (att, ac))"

fun transformer_upload_attachments ::
  "'p env \<Rightarrow> TransformedAttachment list \<Rightarrow> AttachmentClient \<Rightarrow>
   TransformedAttachment list \<times> AttachmentClient" where
  "transformer_upload_attachments env [] ac = ([], ac)"
| "transformer_upload_attachments env (att # atts) ac =
     (case transformer_upload_one env att ac of
        (att', ac1) \<Rightarrow>
          (case transformer_upload_attachments env atts ac1 of
             (atts', ac2) \<Rightarrow> (att' # atts', ac2)))"

subsection \<open>\<open>_get_or_create_category\<close>\<close>

definition orchestrator_get_or_create_category ::
  "'p env \<Rightarrow> string \<Rightarrow> Orchestrator \<Rightarrow> string option outcome" where
  "orchestrator_get_or_create_category env category_name st =
     (case category_cache st category_name of
        Some cached \<Rightarrow> (Inr cached, st)
      | None \<Rightarrow>
          (case get_or_create_category (gql_server env) (graphql_client st) category_name of
             (Inl e, gc) \<Rightarrow> (Inl e, st\<lparr>graphql_client := gc\<rparr>)
           | (Inr category_id, gc) \<Rightarrow>
               (Inr category_id,
                st\<lparr>graphql_client := gc,
                   category_cache := (category_cache st)(category_name \<mapsto> category_id)\<rparr>)))"

subsection \<open>\<open>_process_document\<close>\<close>

text \<open>The body of the \<open>try\<close> block, from its end to its beginning.\<close>

definition record_completed :: "Document \<Rightarrow> string option \<Rightarrow> Orchestrator \<Rightarrow> unit outcome" where
  "record_completed document remote_id st =
     (case set_document_status st (doc_id document) COMPLETED remote_id None of
        (Inl e, st1) \<Rightarrow> (Inl e, st1)
      | (Inr u, st1) \<Rightarrow>
          (case current_run st1 of
             None \<Rightarrow> (Inr (), st1)
           | Some run \<Rightarrow>
               (Inr (), save_run st1 (run\<lparr>successful_documents := successful_documents run + 1\<rparr>))))"

definition create_article :: "'p env \<Rightarrow> Document \<Rightarrow> TransformedDocument \<Rightarrow> string option \<Rightarrow>
   Orchestrator \<Rightarrow> unit outcome" where
  "create_article env document transformed category_id st =
     (if \<not> dry_run (config st) then
        (case create_kb_article (gql_server env) (graphql_client st) (td_title transformed)
                (content_html transformed) category_id of
           (Inl e, gc) \<Rightarrow> (Inl e, st\<lparr>graphql_client := gc\<rparr>)
         | (Inr article, gc) \<Rightarrow>
             record_completed document (itemId article) (st\<lparr>graphql_client := gc\<rparr>))
      else record_completed document (Some (''dry-run-'' @ doc_id document)) st)"

definition resolve_category :: "'p env \<Rightarrow> Document \<Rightarrow> TransformedDocument \<Rightarrow> Orchestrator \<Rightarrow>
   unit outcome" where
  "resolve_category env document transformed st =
     (if truthy (category transformed) then
        (case orchestrator_get_or_create_category env (the (category transformed)) st of
           (Inl e, st1) \<Rightarrow> (Inl e, st1)
         | (Inr category_id, st1) \<Rightarrow> create_article env document transformed category_id st1)
      else create_article env document transformed None st)"

definition attach :: "'p env \<Rightarrow> Document \<Rightarrow> TransformedDocument \<Rightarrow> Orchestrator \<Rightarrow> unit outcome" where
  "attach env document transformed st =
     (if td_attachments transformed \<noteq> [] \<and> \<not> dry_run (config st) then
        (case upload_attachments env (doc_id document) (td_attachments transformed) st of
           (atts1, st1) \<Rightarrow>
             (case transformer_upload_attachments env atts1 (attachment_client st1) of
                (atts2, ac) \<Rightarrow>
                  resolve_category env document
                    (transformed\<lparr>td_attachments := atts2,
                                 content_html :=
                                   update_image_references env (content_html transformed) atts2\<rparr>)
                    (st1\<lparr>attachment_client := ac\<rparr>)))
      else resolve_category env document transformed st)"

definition join :: "string \<Rightarrow> string list \<Rightarrow> string" where
  "join sep xs = (case xs of [] \<Rightarrow> [] | x # ys \<Rightarrow> foldl (\<lambda>acc y. acc @ sep @ y) x ys)"

definition parse_and_transform ::
  "'p env \<Rightarrow> Document \<Rightarrow> DocumentMetadata \<Rightarrow> Orchestrator \<Rightarrow> unit outcome" where
  "parse_and_transform env document md st =
     (case parse_document env (the (md_file_path md)) of
        Inl e \<Rightarrow> (Inl e, st)
      | Inr parsed_doc \<Rightarrow>
          if validate_document env parsed_doc \<noteq> [] \<and> \<not> continue_on_error (config st)
          then (Inl (MigrationError (''Validation errors: ''
                       @ join '', '' (validate_document env parsed_doc))), st)
          else
            (case transform_document env parsed_doc (md_organization md) of
               Inl e \<Rightarrow> (Inl e, st)
             | Inr transformed \<Rightarrow>
                 if validation_errors transformed \<noteq> [] \<and> \<not> continue_on_error (config st)
                 then (Inl (MigrationError (''Transformation errors: ''
                              @ join '', '' (validation_errors transformed))), st)
                 else attach env document transformed st))"

definition skip_if_existing ::
  "'p env \<Rightarrow> Document \<Rightarrow> DocumentMetadata \<Rightarrow> Orchestrator \<Rightarrow> unit outcome" where
  "skip_if_existing env document md st =
     (if skip_existing (config st) then
        (case check_article_exists env (title document) of
           Inl e \<Rightarrow> (Inl e, st)
         | Inr existing_id \<Rightarrow>
             if truthy existing_id
             then set_document_status st (doc_id document) SKIPPED existing_id
                    (Some ''Already exists'')
             else parse_and_transform env document md st)
      else parse_and_transform env document md st)"

definition file_missing :: "'p env \<Rightarrow> DocumentMetadata \<Rightarrow> bool" where
  "file_missing env md =
     (case md_file_path md of None \<Rightarrow> True | Some p \<Rightarrow> \<not> path_exists env p)"

definition process_document_body :: "'p env \<Rightarrow> Document \<Rightarrow> Orchestrator \<Rightarrow> unit outcome" where
  "process_document_body env document st =
     (case set_document_status st (doc_id document) IN_PROGRESS None None of
        (Inl e, st1) \<Rightarrow> (Inl e, st1)
      | (Inr u, st1) \<Rightarrow>
          (case map_of (metadata_cache st1) (doc_id document) of
             None \<Rightarrow>
               (Inl (MigrationError (''Metadata not found for document '' @ doc_id document)), st1)
           | Some md \<Rightarrow>
               if file_missing env md
               then set_document_status st1 (doc_id document) SKIPPED None (Some ''File not found'')
               else skip_if_existing env document md st1))"

text \<open>
  \<open>_process_document\<close>: the \<open>except Exception\<close> clause hands the exception to
  \<open>_handle_document_error\<close> and raises it again. (An exception of the handler itself would
  take its place.)
\<close>

definition process_document :: "'p env \<Rightarrow> Document \<Rightarrow> Orchestrator \<Rightarrow> unit outcome" where
  "process_document env document st =
     (case process_document_body env document st of
        (Inr u, st1) \<Rightarrow> (Inr (), st1)
      | (Inl e, st1) \<Rightarrow>
          if is_Exception e then
            (case handle_document_error document e st1 of
               (Inl e', st2) \<Rightarrow> (Inl e', st2)
             | (Inr u, st2) \<Rightarrow> (Inl e, st2))
          else (Inl e, st1))"

subsection \<open>\<open>_process_documents\<close>\<close>

text \<open>
  The tasks of a batch run under \<open>asyncio.gather(..., return_exceptions=True)\<close>; the model
  runs them one after the other, in the order of the batch, and collects what each one
  returned or raised. The loop over the gathered results then hands every exception to
  \<open>_handle_document_error\<close>.
\<close>

fun gather :: "'p env \<Rightarrow> Document list \<Rightarrow> Orchestrator \<Rightarrow> (exn + unit) list \<times> Orchestrator" where
  "gather env [] st = ([], st)"
| "gather env (doc # docs) st =
     (case process_document env doc st of
        (r, st1) \<Rightarrow> (case gather env docs st1 of (rs, st2) \<Rightarrow> (r # rs, st2)))"

fun handle_results :: "(Document \<times> (exn + unit)) list \<Rightarrow> Orchestrator \<Rightarrow> unit outcome" where
  "handle_results [] st = (Inr (), st)"
| "handle_results ((doc, Inr u) # rest) st = handle_results rest st"
| "handle_results ((doc, Inl e) # rest) st =
     (if is_Exception e then
        (case handle_document_error doc e st of
           (Inl e', st1) \<Rightarrow> (Inl e', st1)
         | (Inr u, st1) \<Rightarrow> handle_results rest st1)
      else handle_results rest st)"

fun batch_loop :: "'p env \<Rightarrow> Document list \<Rightarrow> nat \<Rightarrow> nat list \<Rightarrow> Orchestrator \<Rightarrow> unit outcome" where
  "batch_loop env docs size' [] st = (Inr (), st)"
| "batch_loop env docs size' (batch_num # rest) st =
     (let start_idx = batch_num * size';
          end_idx = min (start_idx + size') (length docs);
          batch = take (end_idx - start_idx) (drop start_idx docs)
      in case gather env batch st of
           (results, st1) \<Rightarrow>
             (case handle_results (zip batch results) st1 of
                (Inl e, st2) \<Rightarrow> (Inl e, st2)
              | (Inr u, st2) \<Rightarrow>
                  if shutdown_event st2 then (Inr (), st2)
                  else batch_loop env docs size' rest st2))"

definition process_documents :: "'p env \<Rightarrow> Document list \<Rightarrow> Orchestrator \<Rightarrow> unit outcome" where
  "process_documents env docs st =
     (let size' = batch_size (config st) in
      if size' = 0 then (Inl ZeroDivisionError, st)
      else batch_loop env docs size' [0..<(length docs + size' - 1) div size'] st)"

subsection \<open>Creating, resuming and finalizing a run\<close>

definition show_bool :: "bool \<Rightarrow> string" where
  "show_bool b = (if b then ''True'' else ''False'')"

definition new_document :: "string \<Rightarrow> DocumentMetadata \<Rightarrow> Document" where
  "new_document locator' md =
     \<lparr>doc_id = locator', title = md_name md, organization = md_organization md,
      status = PENDING, superops_id = None, error_message = None, processed_at = None,
      content_hash = None,
      metadata = [(''owner'', or_empty (owner md)), (''publisher'', or_empty (publisher md)),
                  (''public'', show_bool (is_public md)), (''archived'', show_bool (archived md))]\<rparr>"

definition orchestrator_create_migration_run :: "string \<Rightarrow> Orchestrator \<Rightarrow> MigrationRun \<times> Orchestrator" where
  "orchestrator_create_migration_run config_dict st =
     (case create_migration_run (database st) (utcnow st)
             (int (length (metadata_cache st))) config_dict of
        (run, db) \<Rightarrow>
          (run,
           st\<lparr>database :=
                 fold (\<lambda>item db'. add_document db' (row_id run) (new_document (fst item) (snd item)))
                   (metadata_cache st) db,
              utcnow := Suc (utcnow st)\<rparr>))"

definition resume_migration :: "Orchestrator \<Rightarrow> exn + MigrationRun" where
  "resume_migration st =
     (case get_latest_migration_run (database st) of
        None \<Rightarrow> Inl (MigrationError ''No migration run to resume'')
      | Some run \<Rightarrow>
          if completed_at run \<noteq> None
          then Inl (MigrationError ''Last migration run is already completed'')
          else Inr run)"

text \<open>Python's slice \<open>xs[:n]\<close>, for a negative \<open>n\<close> too.\<close>

definition slice_to :: "int \<Rightarrow> 'a list \<Rightarrow> 'a list" where
  "slice_to n xs = (if 0 \<le> n then take (nat n) xs else take (nat (int (length xs) + n)) xs)"

text \<open>
  \<open>order_map = {loc: i for i, loc in enumerate(migration_order)}\<close>: a later entry of the
  same locator would win. The sort is Python's stable sort by the key
  \<open>order_map.get(d.id, len(order_map))\<close>.
\<close>

definition order_key :: "string list \<Rightarrow> Document \<Rightarrow> nat" where
  "order_key migration_order d =
     (case map_of (rev (zip migration_order [0..<length migration_order])) (doc_id d) of
        None \<Rightarrow> length (remdups migration_order)
      | Some i \<Rightarrow> i)"

definition get_documents_to_migrate ::
  "'p env \<Rightarrow> int option \<Rightarrow> string option \<Rightarrow> Orchestrator \<Rightarrow> exn + Document list" where
  "get_documents_to_migrate env limit filter_pattern st =
     (case current_run st of
        None \<Rightarrow> Inl (RuntimeError ''No current migration run'')
      | Some run \<Rightarrow>
          let pending = get_documents_by_status (database st) (run_id run) PENDING;
              filtered = (if truthy filter_pattern
                          then filter (\<lambda>doc. regex_search env (the filter_pattern) (title doc)
                                            \<or> regex_search env (the filter_pattern) (organization doc))
                                 pending
                          else pending);
              limited = (case limit of
                           None \<Rightarrow> filtered
                         | Some n \<Rightarrow> if n \<noteq> 0 then slice_to n filtered else filtered)
          in case get_migration_order (metadata_cache st) of
               None \<Rightarrow> Inl (RuntimeError ''maximum recursion depth exceeded'')
             | Some migration_order \<Rightarrow> Inr (sort_key (order_key migration_order) limited))"

definition finalize_migration :: "Orchestrator \<Rightarrow> Orchestrator" where
  "finalize_migration st =
     (case current_run st of
        None \<Rightarrow> st
      | Some run \<Rightarrow>
          (save_run st (run\<lparr>completed_at := Some (utcnow st)\<rparr>))\<lparr>utcnow := Suc (utcnow st)\<rparr>)"

subsection \<open>\<open>_handle_cancellation\<close>\<close>

fun reset_to_pending :: "Document list \<Rightarrow> Orchestrator \<Rightarrow> unit outcome" where
  "reset_to_pending [] st = (Inr (), st)"
| "reset_to_pending (doc # docs) st =
     (case set_document_status st (doc_id doc) PENDING None None of
        (Inl e, st1) \<Rightarrow> (Inl e, st1)
      | (Inr u, st1) \<Rightarrow> reset_to_pending docs st1)"

definition handle_cancellation :: "Orchestrator \<Rightarrow> unit outcome" where
  "handle_cancellation st =
     (case current_run st of
        None \<Rightarrow> (Inr (), st)
      | Some run \<Rightarrow>
          (case reset_to_pending
                  (get_documents_by_status (database st) (run_id run) IN_PROGRESS) st of
             (Inl e, st1) \<Rightarrow> (Inl e, st1)
           | (Inr u, st1) \<Rightarrow>
               (Inr (), st1\<lparr>database := update_migration_run (database st1) run\<rparr>)))"

subsection \<open>\<open>migrate\<close>\<close>

record MigrationStats =
  stats_total_documents :: int
  stats_successful_documents :: int
  stats_failed_documents :: int
  stats_skipped_documents :: int
  stats_total_attachments :: int
  stats_successful_attachments :: int
  stats_failed_attachments :: int
  stats_documents :: "(DocumentStatus \<times> int) list"
  stats_attachments :: "(AttachmentStatus \<times> int) list"

datatype migrate_report = NoDocuments | Report MigrationStats

definition get_migration_stats :: "Orchestrator \<Rightarrow> MigrationStats option" where
  "get_migration_stats st =
     (case current_run st of
        None \<Rightarrow> None
      | Some run \<Rightarrow>
          Some \<lparr>stats_total_documents = total_documents run,
                stats_successful_documents = successful_documents run,
                stats_failed_documents = failed_documents run,
                stats_skipped_documents = skipped_documents run,
                stats_total_attachments = total_attachments run,
                stats_successful_attachments = successful_attachments run,
                stats_failed_attachments = failed_attachments run,
                stats_documents = document_statistics (database st) (run_id run),
                stats_attachments = attachment_statistics (database st) (run_id run)\<rparr>)"

text \<open>
  \<open>initialize\<close> reads the source index (\<open>csv\<close> is what \<open>parse_csv\<close> returns or raises) and
  makes fresh clients; the \<open>async with\<close> block opens them.
\<close>

definition initialize :: "exn + metadata_dict \<Rightarrow> Orchestrator \<Rightarrow> unit outcome" where
  "initialize csv st =
     (case csv of
        Inl e \<Rightarrow> (Inl e, st)
      | Inr cache \<Rightarrow>
          (Inr (),
           st\<lparr>metadata_cache := cache,
              graphql_client :=
                \<lparr>gql_open = True, categories_cache = Map.empty, calls = []\<rparr>,
              attachment_client :=
                (attachment_client st)\<lparr>client_open := True, file_cache := Map.empty\<rparr>\<rparr>))"

text \<open>The part of the \<open>try\<close> block of \<open>migrate\<close> after \<open>initialize\<close>.\<close>

definition run_migration ::
  "'p env \<Rightarrow> bool \<Rightarrow> int option \<Rightarrow> string option \<Rightarrow> string \<Rightarrow> Orchestrator \<Rightarrow>
   migrate_report outcome" where
  "run_migration env resume limit filter_pattern config_dict st =
     (case get_kb_categories (gql_server env) (graphql_client st) of
        (Inl e, gc) \<Rightarrow>
          (Inl (MigrationError ''Failed to connect to SuperOps API''), st\<lparr>graphql_client := gc\<rparr>)
      | (Inr categories, gc) \<Rightarrow>
          let st0 = st\<lparr>graphql_client := gc\<rparr> in
          (case (if resume
                 then (case resume_migration st0 of
                         Inl e \<Rightarrow> (Inl e, st0)
                       | Inr run \<Rightarrow> (Inr (), st0\<lparr>current_run := Some run\<rparr>))
                 else (case orchestrator_create_migration_run config_dict st0 of
                         (run, st') \<Rightarrow> (Inr (), st'\<lparr>current_run := Some run\<rparr>))) of
             (Inl e, st1) \<Rightarrow> (Inl e, st1)
           | (Inr u, st1) \<Rightarrow>
               (case get_documents_to_migrate env limit filter_pattern st1 of
                  Inl e \<Rightarrow> (Inl e, st1)
                | Inr docs \<Rightarrow>
                    if docs = [] then (Inr NoDocuments, st1)
                    else
                      (case process_documents env docs st1 of
                         (Inl e, st2) \<Rightarrow> (Inl e, st2)
                       | (Inr u', st2) \<Rightarrow>
                           let st3 = finalize_migration st2 in
                           (case get_migration_stats st3 of
                              None \<Rightarrow> (Inl (OtherError ''KeyError: total_documents''), st3)
                            | Some stats \<Rightarrow> (Inr (Report stats), st3))))))"

text \<open>
  The two \<open>except\<close> clauses of \<open>migrate\<close>, for an exception \<open>e\<close> that left the \<open>try\<close> block in
  state \<open>st\<close>: a \<open>CancelledError\<close> runs \<open>_handle_cancellation\<close> and is raised again; any
  other exception is appended to the run's error log, the run is saved, and the exception
  is raised again.
\<close>

definition migrate_except :: "exn \<Rightarrow> Orchestrator \<Rightarrow> exn \<times> Orchestrator" where
  "migrate_except e st =
     (if e = CancelledError then
        (case handle_cancellation st of
           (Inl e', st1) \<Rightarrow> (e', st1)
         | (Inr u, st1) \<Rightarrow> (CancelledError, st1))
      else
        (case current_run st of
           None \<Rightarrow> (e, st)
         | Some run \<Rightarrow> (e, save_run st (run\<lparr>error_log := error_log run @ [str_exn e]\<rparr>))))"

definition close_clients :: "Orchestrator \<Rightarrow> Orchestrator" where
  "close_clients st =
     st\<lparr>graphql_client := (graphql_client st)\<lparr>gql_open := False\<rparr>,
        attachment_client := (attachment_client st)\<lparr>client_open := False\<rparr>\<rparr>"

definition migrate ::
  "'p env \<Rightarrow> exn + metadata_dict \<Rightarrow> bool \<Rightarrow> int option \<Rightarrow> string option \<Rightarrow> string \<Rightarrow>
   Orchestrator \<Rightarrow> migrate_report outcome" where
  "migrate env csv resume limit filter_pattern config_dict st =
     (case initialize csv st of
        (Inl e, st1) \<Rightarrow> (case migrate_except e st1 of (e', st2) \<Rightarrow> (Inl e', st2))
      | (Inr u, st1) \<Rightarrow>
          (case run_migration env resume limit filter_pattern config_dict st1 of
             (Inl e, st2) \<Rightarrow>
               (case migrate_except e (close_clients st2) of (e', st3) \<Rightarrow> (Inl e', st3))
           | (Inr report, st2) \<Rightarrow> (Inr report, close_clients st2)))"

definition new_orchestrator :: "MigrationConfig \<Rightarrow> Database \<Rightarrow> int \<Rightarrow> datetime \<Rightarrow> Orchestrator" where
  "new_orchestrator cfg db max_size now =
     \<lparr>config = cfg, database = db,
      graphql_client = \<lparr>gql_open = False, categories_cache = Map.empty, calls = []\<rparr>,
      attachment_client = \<lparr>max_file_size = max_size, client_open = False,
                            file_cache = Map.empty, upload_requests = 0\<rparr>,
      current_run = None, metadata_cache = [], category_cache = Map.empty,
      shutdown_event = False, utcnow = now\<rparr>"

section \<open>Concrete stores and inputs\<close>

definition store_one :: Database where
  "store_one =
     empty_database\<lparr>documents :=
       [(1, \<lparr>doc_id = ''DOC-1'', title = ''Guide'', organization = ''Acme'', status = PENDING,
              superops_id = None, error_message = None, processed_at = None,
              content_hash = None, metadata = []\<rparr>)]\<rparr>"



definition no_url_server :: "nat \<Rightarrow> file_info list http_reply" where
  "no_url_server k =
     Response 200 (JsonObject None
       (Some [\<lparr>fileName = Some ''a.png'', originalFileName = Some ''a.png'',
               fileSize = Some 3, fi_url = None\<rparr>]))"

definition url_server :: "nat \<Rightarrow> file_info list http_reply" where
  "url_server k =
     Response 200 (JsonObject None
       (Some [\<lparr>fileName = Some ''a.png'', originalFileName = Some ''a.png'',
               fileSize = Some 3, fi_url = Some ''https://files/a.png''\<rparr>]))"

definition toy_hash :: "string \<Rightarrow> string" where
  "toy_hash data = ''h:'' @ data"

definition fresh_client :: AttachmentClient where
  "fresh_client =
     \<lparr>max_file_size = 52428800, client_open = True, file_cache = Map.empty,
      upload_requests = 0\<rparr>"

definition first_upload :: "(exn + AttachmentUploadResult) \<times> AttachmentClient" where
  "first_upload = upload_bytes no_url_server toy_hash fresh_client ''abc'' ''a.png''"

definition second_upload :: "(exn + AttachmentUploadResult) \<times> AttachmentClient" where
  "second_upload = upload_bytes no_url_server toy_hash (snd first_upload) ''abc'' ''a.png''"

text \<open>
  A source index of three documents: \<open>D1\<close> depends on \<open>D2\<close>, \<open>D3\<close> is independent. All
  files are on disk, the parser and the transformer accept every document, and the
  server \<open>kb_server\<close> is an empty knowledge base that accepts every request: it lists the
  collections created so far and gives each new item an id.
\<close>

definition md :: "string \<Rightarrow> string \<Rightarrow> string list \<Rightarrow> string option \<Rightarrow> DocumentMetadata" where
  "md loc name rel path =
     \<lparr>md_id = loc, md_organization = ''Acme'', md_name = name, expires_on = None,
      owner = None, publisher = None, locator = loc, is_public = False, archived = False,
      help_center = False, related_documents = rel, md_file_path = path\<rparr>"

definition three_documents :: metadata_dict where
  "three_documents =
     [(''D1'', md ''D1'' ''Backup'' [''D2''] (Some ''D1/a.html'')),
      (''D2'', md ''D2'' ''Restore'' [] (Some ''D2/a.html'')),
      (''D3'', md ''D3'' ''Network'' [] (Some ''D3/a.html''))]"

fun collection_of :: "gql_call \<times> nat \<Rightarrow> kb_item list" where
  "collection_of (CreateKbCollection n, k) =
     [\<lparr>itemId = Some (''c'' @ str_nat k), item_name = Some n, itemType = Some ''COLLECTION''\<rparr>]"
| "collection_of (call, k) = []"

definition kb_server :: gql_server where
  "kb_server history attempt =
     (case rev history of
        [] \<Rightarrow> ConnectionFailed ''no request''
      | GetKbItems page page_size # earlier \<Rightarrow>
          Response 200 (JsonObject None
            (Some \<lparr>getKbItems = Some (concat (map collection_of (zip history [0..<length history]))),
                   createKbCollection = None, createKbArticle = None\<rparr>))
      | CreateKbCollection n # earlier \<Rightarrow>
          Response 200 (JsonObject None
            (Some \<lparr>getKbItems = None,
                   createKbCollection = Some \<lparr>itemId = Some (''c'' @ str_nat (length earlier)),
                      item_name = Some n, itemType = Some ''COLLECTION''\<rparr>,
                   createKbArticle = None\<rparr>))
      | CreateKbArticle t c p # earlier \<Rightarrow>
          Response 200 (JsonObject None
            (Some \<lparr>getKbItems = None, createKbCollection = None,
                   createKbArticle = Some \<lparr>itemId = Some (''a'' @ str_nat (length earlier)),
                      item_name = Some t, itemType = Some ''ARTICLE''\<rparr>\<rparr>)))"

definition plain_transform :: "string \<Rightarrow> string \<Rightarrow> exn + TransformedDocument" where
  "plain_transform parsed org =
     Inr \<lparr>td_title = parsed, content_html = ''<p>text</p>'',
          category = Some ''General Documentation'', tags = [], td_attachments = [],
          td_metadata = [], validation_errors = []\<rparr>"

definition all_present :: "string env" where
  "all_present =
     \<lparr>path_exists = (\<lambda>p. True), file_bytes = (\<lambda>p. Some p), parse_document = (\<lambda>p. Inr p),
      validate_document = (\<lambda>p. []), transform_document = plain_transform,
      update_image_references = (\<lambda>html atts. html), regex_search = (\<lambda>pat text. True),
      check_article_exists = (\<lambda>t. Inr None), gql_server = kb_server,
      upload_server = url_server, sha256_hexdigest = toy_hash, base64_b64decode = Some\<rparr>"

definition default_config :: MigrationConfig where
  "default_config = \<lparr>batch_size = 10, skip_existing = True, dry_run = False, continue_on_error = True\<rparr>"

definition fresh_orchestrator :: "MigrationConfig \<Rightarrow> Orchestrator" where
  "fresh_orchestrator cfg = new_orchestrator cfg empty_database 52428800 0"

definition three_documents_prepared :: Orchestrator where
  "three_documents_prepared =
     (case orchestrator_create_migration_run ''{}''
             (snd (initialize (Inr three_documents) (fresh_orchestrator default_config))) of
        (run, st) \<Rightarrow> st\<lparr>current_run := Some run\<rparr>)"

definition three_documents_run :: "migrate_report outcome" where
  "three_documents_run =
     migrate all_present (Inr three_documents) False None None ''{}''
       (fresh_orchestrator default_config)"

text \<open>The same index, but the HTML file of \<open>D3\<close> is not on disk.\<close>

definition one_file_missing :: metadata_dict where
  "one_file_missing =
     [(''D1'', md ''D1'' ''Backup'' [''D2''] (Some ''D1/a.html'')),
      (''D2'', md ''D2'' ''Restore'' [] (Some ''D2/a.html'')),
      (''D3'', md ''D3'' ''Network'' [] None)]"

definition one_file_missing_run :: "migrate_report outcome" where
  "one_file_missing_run =
     migrate all_present (Inr one_file_missing) False None None ''{}''
       (fresh_orchestrator default_config)"

text \<open>The same collaborators, but the parser rejects the HTML file of \<open>D2\<close>.\<close>

definition one_unparsable :: "string env" where
  "one_unparsable =
     all_present\<lparr>parse_document :=
       (\<lambda>p. if p = ''D2/a.html'' then Inl (OtherError ''no content'') else Inr p)\<rparr>"

definition one_unparsable_run :: "migrate_report outcome" where
  "one_unparsable_run =
     migrate one_unparsable (Inr three_documents) False None None ''{}''
       (fresh_orchestrator default_config)"

definition dry_run_config :: MigrationConfig where
  "dry_run_config = default_config\<lparr>dry_run := True\<rparr>"

definition three_documents_dry_run :: "migrate_report outcome" where
  "three_documents_dry_run =
     migrate all_present (Inr three_documents) False None None ''{}''
       (fresh_orchestrator dry_run_config)"

text \<open>
  A run that was interrupted while \<open>D2\<close> was being processed, after one attachment of \<open>D2\<close>
  had been uploaded and counted (the counter is saved only with the next document).
\<close>

definition interrupted :: Orchestrator where
  "interrupted =
     (case set_document_status three_documents_prepared ''D2'' IN_PROGRESS None None of
        (r, st) \<Rightarrow>
          st\<lparr>current_run :=
               map_option (\<lambda>run. run\<lparr>successful_attachments := 1\<rparr>) (current_run st)\<rparr>)"

definition pending_document :: "string \<Rightarrow> Document" where
  "pending_document d =
     \<lparr>doc_id = d, title = ''Network'', organization = ''Acme'', status = PENDING,
      superops_id = None, error_message = None, processed_at = None, content_hash = None,
      metadata = []\<rparr>"

definition one_file_missing_prepared :: Orchestrator where
  "one_file_missing_prepared =
     (case orchestrator_create_migration_run ''{}''
             (snd (initialize (Inr one_file_missing) (fresh_orchestrator default_config))) of
        (run, st) \<Rightarrow> st\<lparr>current_run := Some run\<rparr>)"

text \<open>
  How \<open>_handle_cancellation\<close> changes one document row, given the ids of the documents it
  resets: those rows become \<open>PENDING\<close>, the others stay as they are.
\<close>

definition reset_row :: "string set \<Rightarrow> nat \<times> Document \<Rightarrow> nat \<times> Document \<Rightarrow> bool" where
  "reset_row ids old new =
     (fst new = fst old \<and> doc_id (snd new) = doc_id (snd old)
      \<and> (if doc_id (snd old) \<in> ids then status (snd new) = PENDING else new = old))"

text \<open>
  The same three documents with the rows of the index in a given order, and the six
  orders there are.
\<close>

definition entry :: "string \<Rightarrow> string \<times> DocumentMetadata" where
  "entry loc =
     (loc, md loc (if loc = ''D1'' then ''Backup'' else if loc = ''D2'' then ''Restore''
                   else ''Network'')
             (if loc = ''D1'' then [''D2''] else []) (Some (loc @ ''/a.html'')))"

definition row_orders :: "string list list" where
  "row_orders =
     [[''D1'', ''D2'', ''D3''], [''D1'', ''D3'', ''D2''], [''D2'', ''D1'', ''D3''],
      [''D2'', ''D3'', ''D1''], [''D3'', ''D1'', ''D2''], [''D3'', ''D2'', ''D1'']]"

definition prepared_in :: "string list \<Rightarrow> Orchestrator" where
  "prepared_in rows =
     (case orchestrator_create_migration_run ''{}''
             (snd (initialize (Inr (map entry rows)) (fresh_orchestrator default_config))) of
        (run, st) \<Rightarrow> st\<lparr>current_run := Some run\<rparr>)"

definition full_run_in :: "string list \<Rightarrow> migrate_report outcome" where
  "full_run_in rows =
     migrate all_present (Inr (map entry rows)) False None None ''{}''
       (fresh_orchestrator default_config)"

definition precedes :: "string \<Rightarrow> string \<Rightarrow> string list \<Rightarrow> bool" where
  "precedes x y xs =
     (case dropWhile (\<lambda>z. z \<noteq> x) xs of [] \<Rightarrow> False | z # rest \<Rightarrow> y \<in> set rest)"

text \<open>
  Two states of the orchestrator agree on the configuration and on the current run's
  failure counter and error log.
\<close>

definition same_failures :: "Orchestrator \<Rightarrow> Orchestrator \<Rightarrow> bool" where
  "same_failures st st' =
     (config st' = config st
      \<and> rel_option (\<lambda>r r'. failed_documents r' = failed_documents r \<and> error_log r' = error_log r)
           (current_run st) (current_run st'))"

section \<open>Properties of the state store\<close>

lemma update_document_row_other:
  "d \<notin> set (map (doc_id \<circ> snd) rows) \<Longrightarrow> map (update_document_row now d st sid err) rows = rows"
  by (induction rows) (auto simp: update_document_row_def)

text \<open>
  Claim C9, as the code has it: \<open>update_document_status\<close> never raises. It sets the
  status, the remote id, the error message and the processed time of every row whose id
  is the given one, leaves every other row as it was, and when no row has the given id
  it returns normally with the store unchanged.
\<close>

theorem C9_update_document_status:
  assumes "update_document_status db now d st sid err = res"
  shows "\<exists>db'. res = Inr db'
           \<and> runs db' = runs db \<and> attachments db' = attachments db
           \<and> length (documents db') = length (documents db)
           \<and> (\<forall>i < length (documents db).
                 fst (documents db' ! i) = fst (documents db ! i)
               \<and> doc_id (snd (documents db' ! i)) = doc_id (snd (documents db ! i))
               \<and> (doc_id (snd (documents db ! i)) = d \<longrightarrow>
                     status (snd (documents db' ! i)) = st
                   \<and> superops_id (snd (documents db' ! i)) = sid
                   \<and> error_message (snd (documents db' ! i)) = err
                   \<and> processed_at (snd (documents db' ! i)) = Some now)
               \<and> (doc_id (snd (documents db ! i)) \<noteq> d \<longrightarrow>
                     documents db' ! i = documents db ! i))
           \<and> (d \<notin> set (map (doc_id \<circ> snd) (documents db)) \<longrightarrow> db' = db)"
proof -
  let ?f = "update_document_row now d st sid err"
  let ?db' = "db\<lparr>documents := map ?f (documents db)\<rparr>"
  have res: "res = Inr ?db'"
    using assms by (simp add: update_document_status_def)
  have same: "d \<notin> set (map (doc_id \<circ> snd) (documents db)) \<longrightarrow> ?db' = db"
    by (simp add: update_document_row_other)
  have rows: "\<forall>i < length (documents db).
                 fst (documents ?db' ! i) = fst (documents db ! i)
               \<and> doc_id (snd (documents ?db' ! i)) = doc_id (snd (documents db ! i))
               \<and> (doc_id (snd (documents db ! i)) = d \<longrightarrow>
                     status (snd (documents ?db' ! i)) = st
                   \<and> superops_id (snd (documents ?db' ! i)) = sid
                   \<and> error_message (snd (documents ?db' ! i)) = err
                   \<and> processed_at (snd (documents ?db' ! i)) = Some now)
               \<and> (doc_id (snd (documents db ! i)) \<noteq> d \<longrightarrow>
                     documents ?db' ! i = documents db ! i)"
    by (simp add: update_document_row_def)
  show ?thesis
    apply (rule exI [of _ ?db'])
    using res same rows by simp
qed

theorem C9_update_document_status_witness:
  "\<exists>db'. update_document_status store_one 5 ''DOC-1'' COMPLETED (Some ''kb-42'') None = Inr db'
         \<and> map (status \<circ> snd) (documents db') = [COMPLETED]
         \<and> map (processed_at \<circ> snd) (documents db') = [Some 5]
         \<and> map (superops_id \<circ> snd) (documents db') = [Some ''kb-42'']"
proof -
  obtain db' where r: "update_document_status store_one 5 ''DOC-1'' COMPLETED (Some ''kb-42'') None = Inr db'"
    and len: "length (documents db') = length (documents store_one)"
    and rows: "\<forall>i < length (documents store_one).
                 fst (documents db' ! i) = fst (documents store_one ! i)
               \<and> doc_id (snd (documents db' ! i)) = doc_id (snd (documents store_one ! i))
               \<and> (doc_id (snd (documents store_one ! i)) = ''DOC-1'' \<longrightarrow>
                     status (snd (documents db' ! i)) = COMPLETED
                   \<and> superops_id (snd (documents db' ! i)) = Some ''kb-42''
                   \<and> error_message (snd (documents db' ! i)) = None
                   \<and> processed_at (snd (documents db' ! i)) = Some 5)
               \<and> (doc_id (snd (documents store_one ! i)) \<noteq> ''DOC-1'' \<longrightarrow>
                     documents db' ! i = documents store_one ! i)"
    using C9_update_document_status [OF refl, of store_one 5 "''DOC-1''" COMPLETED "Some ''kb-42''" None]
    by blast
  from len obtain x where x: "documents db' = [x]"
    by (cases "documents db'") (auto simp: store_one_def empty_database_def)
  from rows have "status (snd (documents db' ! 0)) = COMPLETED
      \<and> superops_id (snd (documents db' ! 0)) = Some ''kb-42''
      \<and> processed_at (snd (documents db' ! 0)) = Some 5"
    by (simp add: store_one_def empty_database_def)
  with r x show ?thesis by auto
qed

text \<open>
  Claim C9 as stated fails: the store \<open>store_one\<close> holds no document \<open>DOC-9\<close>, and the
  update of \<open>DOC-9\<close> returns normally, with the store as it was.
\<close>

theorem C9_missing_document_no_error:
  "''DOC-9'' \<notin> set (map (doc_id \<circ> snd) (documents store_one))
   \<and> update_document_status store_one 5 ''DOC-9'' FAILED None (Some ''boom'') = Inr store_one"
  by (simp add: update_document_status_def update_document_row_def store_one_def empty_database_def)

section \<open>Properties of the retry decorator, the uploads and the rate limiter\<close>








text \<open>
  Claim C7, as the code has it: when a call of \<open>upload_bytes\<close> succeeds with a non-empty URL,
  it sent exactly one request (none if the hash of the bytes was cached already), and a
  second \<open>upload_bytes\<close> of the same bytes (under any file name) sends none (the client's
  state is unchanged) and returns a successful result with the URL of the first call.
\<close>

theorem C7_upload_bytes_dedup:
  assumes "upload_bytes server h c data name1 = (Inr r1, c1)"
      and "success r1" and "truthy (url r1)"
  shows "upload_requests c1
           = upload_requests c + (if file_cache c (h data) = None then 1 else 0)
       \<and> (\<exists>r2. upload_bytes server h c1 data name2 = (Inr r2, c1)
               \<and> success r2 \<and> url r2 = url r1)"
proof -
  have small: "\<not> int (length data) > max_file_size c"
    using assms by (auto simp: upload_bytes_def Let_def failed_upload_def)
  from assms(3) obtain u where u: "url r1 = Some u"
    by (auto simp: truthy_def split: option.splits)
  show ?thesis
  proof (cases "file_cache c (h data)")
    case (Some cached)
    with assms small have "c1 = c" "url r1 = Some cached"
      by (auto simp: upload_bytes_def Let_def)
    with Some small show ?thesis
      by (simp add: upload_bytes_def Let_def)
  next
    case None
    obtain x c' where inner: "upload_bytes_internal server c data name1 = (x, c')"
      by (cases "upload_bytes_internal server c data name1") auto
    with assms small None have x: "x = Inr r1"
      and c1: "c1 = c'\<lparr>file_cache := (file_cache c')(h data \<mapsto> the (url r1))\<rparr>"
      by (auto simp: upload_bytes_def Let_def split: sum.splits if_splits)
    from inner x have c': "upload_requests c' = Suc (upload_requests c)"
        "max_file_size c' = max_file_size c"
      by (auto simp: upload_bytes_internal_def Let_def
          split: if_splits http_reply.splits body.splits option.splits list.splits)
    have "upload_bytes server h c1 data name2 =
        (Inr \<lparr>success = True, result_filename = name2, original_filename = name2,
              file_size = int (length data), url = Some u, error = None\<rparr>, c1)"
      using small c' u by (simp add: upload_bytes_def Let_def c1)
    then show ?thesis using c' c1 u None by simp
  qed
qed

theorem C7_upload_bytes_dedup_witness:
  "upload_requests (snd (upload_bytes url_server toy_hash fresh_client ''abc'' ''a.png'')) = 1
   \<and> (\<exists>r2. upload_bytes url_server toy_hash
              (snd (upload_bytes url_server toy_hash fresh_client ''abc'' ''a.png''))
              ''abc'' ''b.png''
            = (Inr r2, snd (upload_bytes url_server toy_hash fresh_client ''abc'' ''a.png''))
          \<and> success r2 \<and> url r2 = Some ''https://files/a.png'')"
proof -
  obtain r1 c1 where f: "upload_bytes url_server toy_hash fresh_client ''abc'' ''a.png'' = (Inr r1, c1)"
    and s: "success r1" and u: "url r1 = Some ''https://files/a.png''"
    by (simp add: upload_bytes_def upload_bytes_internal_def Let_def fresh_client_def
        url_server_def is_success_def uploaded_def truthy_def)
  have t: "truthy (url r1)" using u by (simp add: truthy_def)
  from C7_upload_bytes_dedup [OF f s t, of "''b.png''"] f u show ?thesis
    by (simp add: fresh_client_def)
qed

text \<open>
  Claim C7 as stated fails: the server accepts the upload but its answer carries no \<open>url\<close>.
  The first call succeeds after one request, nothing is cached, and the second call of
  the same bytes succeeds after a second request.
\<close>

theorem C7_success_without_url_not_cached:
  "map_sum str_exn success (fst first_upload) = Inr True
   \<and> upload_requests (snd first_upload) = 1
   \<and> map_sum str_exn success (fst second_upload) = Inr True
   \<and> upload_requests (snd second_upload) = 2"
  by (simp add: second_upload_def first_upload_def upload_bytes_def upload_bytes_internal_def
      Let_def fresh_client_def no_url_server_def is_success_def uploaded_def truthy_def)

lemma acquire_pos:
  "0 < tokens l \<Longrightarrow> acquire l clock = Acquired (l\<lparr>tokens := tokens l - 1\<rparr>) [] clock"
  by (simp add: acquire_def acquire_loop.simps)

text \<open>
  Claim C8 at the eleventh call: a limiter of 10 per 60 seconds is created at time \<open>t0\<close>;
  ten calls use up its tokens; the eleventh call reads the clock once, at any later time
  \<open>now\<close>, and returns without any sleep, leaving the bucket at
  \<open>min 10 ((now - t0) / 6) - 1\<close> tokens (in debt when less than 6 seconds have passed).
\<close>

theorem C8_eleventh_acquire_not_delayed:
  assumes "t0 < now"
  shows "\<exists>l. acquire_n 11 (RateLimiter_init 10 60 t0) (now # clock) = Acquired l [] clock
            \<and> tokens l = min 10 ((now - t0) / 6) - 1 \<and> updated_at l = now"
  using assms by (simp add: eval_nat_numeral acquire_def acquire_loop.simps RateLimiter_init_def Let_def min_def)

theorem C8_eleventh_acquire_not_delayed_witness:
  "\<exists>l. acquire_n 11 (RateLimiter_init 10 60 0) [1 / 1000] = Acquired l [] []
      \<and> tokens l < 0 \<and> updated_at l = 1 / 1000"
  using C8_eleventh_acquire_not_delayed [of 0 "1 / 1000" "[]"] by auto

text \<open>The token count never exceeds \<open>rate\<close>, and a call that returns leaves more than \<open>-1\<close>.\<close>

lemma acquire_loop_invariant:
  "acquire_loop l clock sleeps = Acquired l' sleeps' clock' \<Longrightarrow> tokens l \<le> real_of_int (rate l) \<Longrightarrow>
     tokens l' \<le> real_of_int (rate l') \<and> rate l' = rate l \<and> per l' = per l \<and> 0 < tokens l'"
proof (induction l clock sleeps rule: acquire_loop.induct)
  case (1 l clock sleeps)
  note prems = "1.prems"
  note IH = "1.IH"
  show ?case
  proof (cases "tokens l \<le> 0")
    case False
    with prems show ?thesis by (simp add: acquire_loop.simps [of l])
  next
    case True
    show ?thesis
    proof (cases clock)
      case Nil
      with True prems show ?thesis by (simp add: acquire_loop.simps [of l])
    next
      case (Cons now rest)
      let ?r = "real_of_int (rate l) / per l"
      let ?l' = "l\<lparr>tokens := min (real_of_int (rate l)) (tokens l + (now - updated_at l) * ?r),
                     updated_at := now\<rparr>"
      from prems True Cons have per: "per l \<noteq> 0"
        by (auto simp: acquire_loop.simps [of l] split: if_splits)
      have inv': "tokens ?l' \<le> real_of_int (rate ?l')" by simp
      show ?thesis
      proof (cases "tokens ?l' \<le> 0")
        case False
        with prems True Cons per
        have rec: "acquire_loop ?l' rest sleeps = Acquired l' sleeps' clock'"
          by (simp add: acquire_loop.simps [of l] Let_def)
        from IH(2) [OF True Cons per refl refl refl False rec inv']
        show ?thesis by simp
      next
        case neg: True
        with prems True Cons per have nz: "?r \<noteq> 0"
          by (auto simp: acquire_loop.simps [of l] Let_def split: if_splits)
        with neg prems True Cons per
        have rec: "acquire_loop ?l' rest (sleeps @ [1 / ?r]) = Acquired l' sleeps' clock'"
          by (simp add: acquire_loop.simps [of l] Let_def)
        from IH(1) [OF True Cons per refl refl refl neg nz rec inv']
        show ?thesis by simp
      qed
    qed
  qed
qed

lemma acquire_keeps_tokens_below_rate:
  assumes "acquire l clock = Acquired l' sleeps clock'" and "tokens l \<le> real_of_int (rate l)"
  shows "tokens l' \<le> real_of_int (rate l') \<and> rate l' = rate l \<and> - 1 < tokens l'"
proof -
  from assms(1) obtain m where m: "acquire_loop l clock [] = Acquired m sleeps clock'"
    and l': "l' = m\<lparr>tokens := tokens m - 1\<rparr>"
    by (auto simp: acquire_def split: acquired.splits)
  from acquire_loop_invariant [OF m assms(2)] l' show ?thesis by simp
qed

section \<open>Properties of the orchestrator\<close>

lemmas model_defs =
  migrate_def initialize_def run_migration_def new_orchestrator_def close_clients_def
  get_kb_categories_def gql_execute_def execute_def stop_after_attempt_3_def execute_once_def
  is_success_def orchestrator_create_migration_run_def create_migration_run_def add_document_def
  new_document_def row_id_def get_documents_to_migrate_def get_documents_by_status_def
  get_migration_order_def build_dependency_graph_def order_key_def truthy_def
  process_documents_def process_document_def process_document_body_def set_document_status_def
  update_document_status_def update_document_row_def file_missing_def skip_if_existing_def
  parse_and_transform_def attach_def resolve_category_def orchestrator_get_or_create_category_def
  get_or_create_category_def create_kb_category_def create_article_def create_kb_article_def
  record_completed_def save_run_def update_migration_run_def update_run_row_def
  finalize_migration_def get_migration_stats_def document_statistics_def
  attachment_statistics_def count_documents_def count_attachments_def or_empty_def
  show_bool_def empty_database_def handle_document_error_def

lemmas scenario_defs =
  all_present_def kb_server_def plain_transform_def default_config_def three_documents_def
  md_def fresh_orchestrator_def Let_def str_nat.simps digit_def numeral_2_eq_2

text \<open>
  The depth bound of \<open>get_migration_order\<close> is never reached: the function returns an
  order for every index.
\<close>

lemma for_each_grows:
  assumes step: "\<And>x s. V \<subseteq> set (fst s) \<Longrightarrow> \<exists>s'. f x s = Some s' \<and> set (fst s) \<subseteq> set (fst s')"
      and start: "V \<subseteq> set (fst s)"
  shows "\<exists>s'. for_each f xs s = Some s' \<and> set (fst s) \<subseteq> set (fst s')"
  using start
proof (induction xs arbitrary: s)
  case Nil
  then show ?case by simp
next
  case (Cons x xs)
  from step [OF Cons.prems] obtain s1 where s1: "f x s = Some s1" "set (fst s) \<subseteq> set (fst s1)"
    by blast
  with Cons.prems have "V \<subseteq> set (fst s1)" by blast
  from Cons.IH [OF this] obtain s' where "for_each f xs s1 = Some s'" "set (fst s1) \<subseteq> set (fst s')"
    by blast
  with s1 show ?case by auto
qed

lemma visit_returns:
  "card (set (map fst graph) - set (fst s)) < depth \<Longrightarrow>
     \<exists>s'. visit depth graph node s = Some s' \<and> set (fst s) \<subseteq> set (fst s')"
proof (induction depth arbitrary: node s)
  case 0
  then show ?case by simp
next
  case (Suc depth)
  show ?case
  proof (cases "node \<in> set (fst s)")
    case True
    then show ?thesis by simp
  next
    case False
    let ?deps = "case map_of graph node of None \<Rightarrow> [] | Some deps \<Rightarrow> deps"
    let ?s0 = "(node # fst s, snd s)"
    show ?thesis
    proof (cases "map_of graph node")
      case None
      with False show ?thesis by auto
    next
      case (Some deps)
      then have key: "node \<in> set (map fst graph)"
        by (metis map_of_eq_None_iff option.distinct(1) set_map)
      have fin: "finite (set (map fst graph) - set (fst s))" by simp
      from key False have mem: "node \<in> set (map fst graph) - set (fst s)" by simp
      have "set (map fst graph) - set (fst ?s0) = (set (map fst graph) - set (fst s)) - {node}"
        by auto
      then have "card (set (map fst graph) - set (fst ?s0))
                 = card (set (map fst graph) - set (fst s)) - 1"
        using mem fin by (simp add: card_Diff_singleton)
      moreover from mem fin have "0 < card (set (map fst graph) - set (fst s))"
        by (metis card_gt_0_iff empty_iff)
      ultimately have small: "card (set (map fst graph) - set (fst ?s0)) < depth"
        using Suc.prems by linarith
      have step: "\<exists>s'. visit depth graph x t = Some s' \<and> set (fst t) \<subseteq> set (fst s')"
        if "set (fst ?s0) \<subseteq> set (fst t)" for x t
      proof -
        have "set (map fst graph) - set (fst t) \<subseteq> set (map fst graph) - set (fst ?s0)"
          using that by auto
        then have "card (set (map fst graph) - set (fst t))
                   \<le> card (set (map fst graph) - set (fst ?s0))"
          by (intro card_mono) auto
        with small have "card (set (map fst graph) - set (fst t)) < depth" by linarith
        from Suc.IH [OF this] show ?thesis .
      qed
      from for_each_grows [of "set (fst ?s0)" "visit depth graph" ?s0 deps, OF step]
      obtain s' where "for_each (visit depth graph) deps ?s0 = Some s'"
        "set (fst ?s0) \<subseteq> set (fst s')" by blast
      with False Some show ?thesis by auto
    qed
  qed
qed

lemma get_migration_order_returns: "\<exists>order. get_migration_order cache = Some order"
proof -
  let ?g = "build_dependency_graph cache"
  have len: "length ?g = length cache" by (simp add: build_dependency_graph_def)
  have step: "\<exists>s'. visit (Suc (length cache)) ?g x t = Some s' \<and> set (fst t) \<subseteq> set (fst s')"
    if "{} \<subseteq> set (fst t)" for x t
  proof -
    have "card (set (map fst ?g) - set (fst t)) \<le> card (set (map fst ?g))"
      by (intro card_mono) auto
    also have "\<dots> \<le> length (map fst ?g)" by (rule card_length)
    finally have "card (set (map fst ?g) - set (fst t)) < Suc (length cache)"
      using len by simp
    from visit_returns [OF this] show ?thesis .
  qed
  from for_each_grows [of "{}" "visit (Suc (length cache)) ?g" "([], [])" "map fst cache", OF step]
  show ?thesis by (auto simp: get_migration_order_def)
qed

text \<open>
  Claim C10. The index lists \<open>D1\<close> (which depends on \<open>D2\<close>), \<open>D2\<close> and \<open>D3\<close>; the batch size
  is 10; every file is on disk and every call of the gateway succeeds. With the rows in
  this order, the migration order and the work list are \<open>D2, D1, D3\<close>, the run ends with
  the counters total 3, successful 3, failed 0, skipped 0, and all three documents are
  \<open>COMPLETED\<close>. In whichever of the six orders the index lists its rows, the work list
  puts \<open>D2\<close> before \<open>D1\<close>, and the run ends with the same counters and statuses.
\<close>

theorem C10_three_documents:
  "batch_size (config three_documents_prepared) = 10
   \<and> get_migration_order three_documents = Some [''D2'', ''D1'', ''D3'']
   \<and> map_sum str_exn (map doc_id)
        (get_documents_to_migrate all_present None None three_documents_prepared)
      = Inr [''D2'', ''D1'', ''D3'']
   \<and> map_sum str_exn
        (\<lambda>report. case report of
            NoDocuments \<Rightarrow> []
          | Report stats \<Rightarrow>
              [stats_total_documents stats, stats_successful_documents stats,
               stats_failed_documents stats, stats_skipped_documents stats])
        (fst three_documents_run)
      = Inr [3, 3, 0, 0]
   \<and> map (\<lambda>row. (doc_id (snd row), status (snd row)))
        (documents (database (snd three_documents_run)))
      = [(''D1'', COMPLETED), (''D2'', COMPLETED), (''D3'', COMPLETED)]
   \<and> list_all
        (\<lambda>rows.
           batch_size (config (prepared_in rows)) = 10
         \<and> (case get_documents_to_migrate all_present None None (prepared_in rows) of
               Inl e \<Rightarrow> False
             | Inr work \<Rightarrow> precedes ''D2'' ''D1'' (map doc_id work) \<and> length work = 3)
         \<and> (case fst (full_run_in rows) of
               Inr (Report stats) \<Rightarrow>
                 stats_total_documents stats = 3 \<and> stats_successful_documents stats = 3
               \<and> stats_failed_documents stats = 0 \<and> stats_skipped_documents stats = 0
             | _ \<Rightarrow> False)
         \<and> map (\<lambda>d. (doc_id d, status d))
              (get_documents_by_status (database (snd (full_run_in rows))) (Some 1) COMPLETED)
            = [(''D1'', COMPLETED), (''D2'', COMPLETED), (''D3'', COMPLETED)]
         \<and> length (documents (database (snd (full_run_in rows)))) = 3)
        row_orders"
proof -
  have listed: "batch_size (config three_documents_prepared) = 10
   \<and> get_migration_order three_documents = Some [''D2'', ''D1'', ''D3'']
   \<and> map_sum str_exn (map doc_id)
        (get_documents_to_migrate all_present None None three_documents_prepared)
      = Inr [''D2'', ''D1'', ''D3'']
   \<and> map_sum str_exn
        (\<lambda>report. case report of
            NoDocuments \<Rightarrow> []
          | Report stats \<Rightarrow>
              [stats_total_documents stats, stats_successful_documents stats,
               stats_failed_documents stats, stats_skipped_documents stats])
        (fst three_documents_run)
      = Inr [3, 3, 0, 0]
   \<and> map (\<lambda>row. (doc_id (snd row), status (snd row)))
        (documents (database (snd three_documents_run)))
      = [(''D1'', COMPLETED), (''D2'', COMPLETED), (''D3'', COMPLETED)]"
    by (simp add: three_documents_run_def three_documents_prepared_def model_defs scenario_defs)
  have any_order: "list_all
        (\<lambda>rows.
           batch_size (config (prepared_in rows)) = 10
         \<and> (case get_documents_to_migrate all_present None None (prepared_in rows) of
               Inl e \<Rightarrow> False
             | Inr work \<Rightarrow> precedes ''D2'' ''D1'' (map doc_id work) \<and> length work = 3)
         \<and> (case fst (full_run_in rows) of
               Inr (Report stats) \<Rightarrow>
                 stats_total_documents stats = 3 \<and> stats_successful_documents stats = 3
               \<and> stats_failed_documents stats = 0 \<and> stats_skipped_documents stats = 0
             | _ \<Rightarrow> False)
         \<and> map (\<lambda>d. (doc_id d, status d))
              (get_documents_by_status (database (snd (full_run_in rows))) (Some 1) COMPLETED)
            = [(''D1'', COMPLETED), (''D2'', COMPLETED), (''D3'', COMPLETED)]
         \<and> length (documents (database (snd (full_run_in rows)))) = 3)
        row_orders"
    by (simp add: row_orders_def full_run_in_def prepared_in_def entry_def precedes_def
        model_defs scenario_defs)
  from listed any_order show ?thesis by blast
qed

text \<open>
  Claim C1 at a run that skips a document: the HTML file of \<open>D3\<close> is missing. After the
  run, one document has the status \<open>SKIPPED\<close> (the aggregate of the statuses says 1), and
  the run's counter of skipped documents is 0.
\<close>

theorem C1_skipped_document_not_counted:
  "map_sum str_exn
     (\<lambda>report. case report of
         NoDocuments \<Rightarrow> []
       | Report stats \<Rightarrow>
           [stats_skipped_documents stats, stats_get (stats_documents stats) SKIPPED,
            stats_successful_documents stats, stats_get (stats_documents stats) COMPLETED])
     (fst one_file_missing_run)
   = Inr [0, 1, 2, 2]
   \<and> map (\<lambda>row. (doc_id (snd row), status (snd row)))
        (documents (database (snd one_file_missing_run)))
      = [(''D1'', COMPLETED), (''D2'', COMPLETED), (''D3'', SKIPPED)]
   \<and> map skipped_documents (runs (database (snd one_file_missing_run))) = [0]"
  by (simp add: one_file_missing_run_def model_defs scenario_defs one_file_missing_def stats_get_def)

text \<open>
  An exception that leaves the body of \<open>_process_document\<close> leaves the run's failure
  counter and error log as they were before the call.
\<close>

lemma same_failures_refl [simp]: "same_failures st st"
  by (simp add: same_failures_def option.rel_refl)

lemma same_failures_trans:
  "same_failures a b \<Longrightarrow> same_failures b c \<Longrightarrow> same_failures a c"
  by (cases "current_run a"; cases "current_run b"; cases "current_run c")
     (auto simp: same_failures_def)

lemma same_failures_fields:
  "config st' = config st \<Longrightarrow> current_run st' = current_run st \<Longrightarrow> same_failures st st'"
  by (simp add: same_failures_def option.rel_refl)

lemma set_document_status_frame:
  "set_document_status st d s sid err = (r, st') \<Longrightarrow>
     r = Inr () \<and> config st' = config st \<and> current_run st' = current_run st"
  by (auto simp: set_document_status_def update_document_status_def)

lemma set_attachment_status_frame [simp]:
  "config (set_attachment_status st aid s u err) = config st"
  "current_run (set_attachment_status st aid s u err) = current_run st"
  by (simp_all add: set_attachment_status_def)

lemma upload_one_frame:
  "upload_one env d run0 att st = (att', st') \<Longrightarrow> same_failures st st'"
  by (cases "current_run st")
     (auto simp: upload_one_def Let_def same_failures_def
       split: option.splits prod.splits if_splits sum.splits)

lemma upload_each_frame:
  "upload_each env d run0 atts st = (atts', st') \<Longrightarrow> same_failures st st'"
proof (induction atts arbitrary: st atts')
  case Nil
  then show ?case by simp
next
  case (Cons att atts)
  then show ?case
    by (auto split: prod.splits dest!: upload_one_frame intro: same_failures_trans)
qed

lemma upload_attachments_frame:
  "upload_attachments env d atts st = (atts', st') \<Longrightarrow> same_failures st st'"
  by (auto simp: upload_attachments_def split: option.splits dest: upload_each_frame)

lemma record_completed_returns:
  "record_completed document remote_id st = (r, st') \<Longrightarrow> r = Inr ()"
  by (auto simp: record_completed_def set_document_status_def update_document_status_def
      split: option.splits)

lemma create_article_frame:
  "create_article env document transformed category_id st = (Inl e, st') \<Longrightarrow> same_failures st st'"
  by (auto simp: create_article_def same_failures_def option.rel_refl
      split: if_splits prod.splits sum.splits dest: record_completed_returns)

lemma category_frame:
  "orchestrator_get_or_create_category env c st = (r, st') \<Longrightarrow> same_failures st st'"
  by (auto simp: orchestrator_get_or_create_category_def same_failures_def option.rel_refl
      split: option.splits prod.splits sum.splits)

lemma resolve_category_frame:
  "resolve_category env document transformed st = (Inl e, st') \<Longrightarrow> same_failures st st'"
  by (auto simp: resolve_category_def split: if_splits prod.splits sum.splits
      dest: category_frame create_article_frame intro: same_failures_trans)

lemma attach_frame:
  "attach env document transformed st = (Inl e, st') \<Longrightarrow> same_failures st st'"
proof (cases "td_attachments transformed \<noteq> [] \<and> \<not> dry_run (config st)")
  case False
  assume "attach env document transformed st = (Inl e, st')"
  with False show ?thesis by (auto simp: attach_def dest: resolve_category_frame)
next
  case True
  assume a: "attach env document transformed st = (Inl e, st')"
  obtain atts1 st1 where u: "upload_attachments env (doc_id document) (td_attachments transformed) st
      = (atts1, st1)"
    by (cases "upload_attachments env (doc_id document) (td_attachments transformed) st") auto
  obtain atts2 ac where t: "transformer_upload_attachments env atts1 (attachment_client st1)
      = (atts2, ac)"
    by (cases "transformer_upload_attachments env atts1 (attachment_client st1)") auto
  from a True u t have "resolve_category env document
      (transformed\<lparr>td_attachments := atts2,
                   content_html := update_image_references env (content_html transformed) atts2\<rparr>)
      (st1\<lparr>attachment_client := ac\<rparr>) = (Inl e, st')"
    by (simp add: attach_def)
  from resolve_category_frame [OF this] have "same_failures (st1\<lparr>attachment_client := ac\<rparr>) st'" .
  then have "same_failures st1 st'" by (simp add: same_failures_def)
  with upload_attachments_frame [OF u] show ?thesis by (blast intro: same_failures_trans)
qed

lemma parse_and_transform_frame:
  "parse_and_transform env document m st = (Inl e, st') \<Longrightarrow> same_failures st st'"
  by (auto simp: parse_and_transform_def split: sum.splits if_splits dest: attach_frame)

lemma skip_if_existing_frame:
  "skip_if_existing env document m st = (Inl e, st') \<Longrightarrow> same_failures st st'"
  by (auto simp: skip_if_existing_def split: sum.splits if_splits
      dest: parse_and_transform_frame set_document_status_frame)

lemma process_document_body_frame:
  "process_document_body env document st = (Inl e, st') \<Longrightarrow> same_failures st st'"
proof -
  assume a: "process_document_body env document st = (Inl e, st')"
  obtain r st1 where s: "set_document_status st (doc_id document) IN_PROGRESS None None = (r, st1)"
    by (cases "set_document_status st (doc_id document) IN_PROGRESS None None") auto
  note f = set_document_status_frame [OF s]
  then have f1: "same_failures st st1" by (simp add: same_failures_fields)
  from a s f have "same_failures st1 st'"
    by (auto simp: process_document_body_def split: option.splits if_splits
        dest: skip_if_existing_frame set_document_status_frame)
  with f1 show ?thesis by (blast intro: same_failures_trans)
qed

lemma handle_document_error_counts:
  assumes "current_run st = Some run"
  shows "\<exists>st' run'. handle_document_error document e st = (Inr (), st')
           \<and> config st' = config st
           \<and> current_run st' = Some run'
           \<and> failed_documents run' = failed_documents run + 1
           \<and> error_log run' = error_log run @ [doc_id document @ '': '' @ str_exn e]"
  using assms
  by (auto simp: handle_document_error_def set_document_status_def update_document_status_def
      save_run_def Let_def)

text \<open>
  Claim C2 at the code: whenever the body of \<open>_process_document\<close> raises an exception for
  a document (a run being current), processing the document as a batch ends without an
  exception, with the run's counter of failed documents increased by 2 and the same
  message appended to the run's error log twice.
\<close>

theorem C2_failure_recorded_twice:
  assumes body: "process_document_body env document st = (Inl e, st1)"
      and exn: "is_Exception e"
      and run: "current_run st = Some run"
      and size: "0 < batch_size (config st)"
  shows "\<exists>st' run'. process_documents env [document] st = (Inr (), st')
           \<and> current_run st' = Some run'
           \<and> failed_documents run' = failed_documents run + 2
           \<and> error_log run' = error_log run
                @ [doc_id document @ '': '' @ str_exn e, doc_id document @ '': '' @ str_exn e]"
proof -
  from process_document_body_frame [OF body] run
  obtain run1 where r1: "current_run st1 = Some run1"
    "failed_documents run1 = failed_documents run" "error_log run1 = error_log run"
    and c1: "config st1 = config st"
    by (cases "current_run st1") (auto simp: same_failures_def)
  from handle_document_error_counts [OF r1(1), of document e]
  obtain st2 run2 where h1: "handle_document_error document e st1 = (Inr (), st2)"
    and c2: "config st2 = config st1"
    and r2: "current_run st2 = Some run2" "failed_documents run2 = failed_documents run1 + 1"
      "error_log run2 = error_log run1 @ [doc_id document @ '': '' @ str_exn e]"
    by blast
  from body exn h1 have pd: "process_document env document st = (Inl e, st2)"
    by (simp add: process_document_def)
  from handle_document_error_counts [OF r2(1), of document e]
  obtain st3 run3 where h2: "handle_document_error document e st2 = (Inr (), st3)"
    and r3: "current_run st3 = Some run3" "failed_documents run3 = failed_documents run2 + 1"
      "error_log run3 = error_log run2 @ [doc_id document @ '': '' @ str_exn e]"
    by blast
  let ?n = "batch_size (config st)"
  from size have batches: "[0..<(length [document] + ?n - 1) div ?n] = [0]"
    by simp
  from size have batch: "take (min (0 * ?n + ?n) (length [document]) - 0 * ?n) (drop (0 * ?n) [document])
      = [document]"
    by (cases ?n) auto
  have "process_documents env [document] st = (Inr (), st3)"
    using size exn pd h2
    unfolding process_documents_def Let_def batches
    by (simp add: batch del: take_Cons')
  with r1 r2 r3 show ?thesis by simp
qed

theorem C2_failure_recorded_twice_witness:
  "map_option (\<lambda>r. (failed_documents r, error_log r))
     (current_run (snd (process_documents one_unparsable [pending_document ''D2'']
                          three_documents_prepared)))
   = Some (2, [''D2: no content'', ''D2: no content''])"
proof -
  have body: "fst (process_document_body one_unparsable (pending_document ''D2'')
                     three_documents_prepared) = Inl (OtherError ''no content'')"
    by (simp add: three_documents_prepared_def pending_document_def one_unparsable_def
        model_defs scenario_defs)
  then have body': "process_document_body one_unparsable (pending_document ''D2'')
                     three_documents_prepared
      = (Inl (OtherError ''no content''),
         snd (process_document_body one_unparsable (pending_document ''D2'')
                three_documents_prepared))"
    by (metis prod.collapse)
  have run: "current_run three_documents_prepared = Some (the (current_run three_documents_prepared))"
    by (simp add: three_documents_prepared_def model_defs scenario_defs one_unparsable_def)
  have counts: "failed_documents (the (current_run three_documents_prepared)) = 0"
    "error_log (the (current_run three_documents_prepared)) = []"
    by (simp_all add: three_documents_prepared_def model_defs scenario_defs one_unparsable_def)
  have size: "0 < batch_size (config three_documents_prepared)"
    by (simp add: three_documents_prepared_def model_defs scenario_defs one_unparsable_def)
  from C2_failure_recorded_twice [OF body' _ run size] counts
  show ?thesis by (auto simp: pending_document_def)
qed

text \<open>
  The same at the level of a whole run: the parser rejects the file of \<open>D2\<close>. One document
  is \<open>FAILED\<close>, the run's counter of failed documents is 2, and the run's error log holds
  the message twice.
\<close>

lemma one_unparsable_run_recorded_twice:
  "map_sum str_exn
     (\<lambda>report. case report of
         NoDocuments \<Rightarrow> []
       | Report stats \<Rightarrow>
           [stats_failed_documents stats, stats_get (stats_documents stats) FAILED])
     (fst one_unparsable_run)
   = Inr [2, 1]
   \<and> map error_log (runs (database (snd one_unparsable_run)))
      = [[''D2: no content'', ''D2: no content'']]
   \<and> map (\<lambda>row. (doc_id (snd row), status (snd row), error_message (snd row)))
        (documents (database (snd one_unparsable_run)))
      = [(''D1'', COMPLETED, None), (''D2'', FAILED, Some ''no content''),
         (''D3'', COMPLETED, None)]"
  by (simp add: one_unparsable_run_def model_defs scenario_defs one_unparsable_def stats_get_def)

text \<open>
  Claim C5 at a dry run of the three documents, against a knowledge base without
  collections: no article is created and nothing is uploaded, every document is
  \<open>COMPLETED\<close> with a placeholder id, and the collection \<open>General Documentation\<close> is created
  on the server.
\<close>

theorem C5_dry_run_creates_collection:
  "dry_run (config (snd three_documents_dry_run))
   \<and> calls (graphql_client (snd three_documents_dry_run))
      = [GetKbItems 1 100, GetKbItems 1 100, CreateKbCollection ''General Documentation'']
   \<and> upload_requests (attachment_client (snd three_documents_dry_run)) = 0
   \<and> map (\<lambda>row. (doc_id (snd row), status (snd row), superops_id (snd row)))
        (documents (database (snd three_documents_dry_run)))
      = [(''D1'', COMPLETED, Some ''dry-run-D1''), (''D2'', COMPLETED, Some ''dry-run-D2''),
         (''D3'', COMPLETED, Some ''dry-run-D3'')]"
  by (simp add: three_documents_dry_run_def model_defs scenario_defs dry_run_config_def)

text \<open>
  Claim C3 at the code: when the document's metadata is known and its HTML file is
  missing, \<open>_process_document\<close> returns without an exception, every row of the document is
  \<open>SKIPPED\<close> with the message \<open>File not found\<close>, every other row is as it was, and the run
  (its skipped counter too) and the stored runs are unchanged: the counter is not
  incremented.
\<close>

theorem C3_missing_file_is_skipped_uncounted:
  assumes "map_of (metadata_cache st) (doc_id document) = Some m"
      and "file_missing env m"
  shows "\<exists>st'. process_document env document st = (Inr (), st')
           \<and> current_run st' = current_run st
           \<and> runs (database st') = runs (database st)
           \<and> list_all2
                (\<lambda>old new. if doc_id (snd old) = doc_id document
                            then status (snd new) = SKIPPED
                               \<and> error_message (snd new) = Some ''File not found''
                            else new = old)
                (documents (database st)) (documents (database st'))"
  using assms
  by (simp add: process_document_def process_document_body_def set_document_status_def
      update_document_status_def update_document_row_def list_all2_map2 list_all2_same)

theorem C3_missing_file_is_skipped_uncounted_witness:
  "fst (process_document all_present (pending_document ''D3'') one_file_missing_prepared) = Inr ()
   \<and> map (\<lambda>row. (doc_id (snd row), status (snd row), error_message (snd row)))
        (documents (database
           (snd (process_document all_present (pending_document ''D3'')
                   one_file_missing_prepared))))
      = [(''D1'', PENDING, None), (''D2'', PENDING, None),
         (''D3'', SKIPPED, Some ''File not found'')]
   \<and> map_option skipped_documents
        (current_run (snd (process_document all_present (pending_document ''D3'')
                             one_file_missing_prepared)))
      = Some 0"
proof -
  have m: "map_of (metadata_cache one_file_missing_prepared) (doc_id (pending_document ''D3''))
           = Some (md ''D3'' ''Network'' [] None)"
    by (simp add: one_file_missing_prepared_def pending_document_def model_defs scenario_defs one_file_missing_def)
  have f: "file_missing all_present (md ''D3'' ''Network'' [] None)"
    by (simp add: file_missing_def md_def)
  from C3_missing_file_is_skipped_uncounted [OF m f]
  obtain st' where
    p: "process_document all_present (pending_document ''D3'') one_file_missing_prepared
        = (Inr (), st')"
    and r: "current_run st' = current_run one_file_missing_prepared"
    by blast
  have d: "map (\<lambda>row. (doc_id (snd row), status (snd row), error_message (snd row)))
        (documents (database
           (snd (process_document all_present (pending_document ''D3'')
                   one_file_missing_prepared))))
      = [(''D1'', PENDING, None), (''D2'', PENDING, None),
         (''D3'', SKIPPED, Some ''File not found'')]"
    by (simp add: one_file_missing_prepared_def pending_document_def model_defs scenario_defs one_file_missing_def)
  have c: "map_option skipped_documents (current_run one_file_missing_prepared) = Some 0"
    by (simp add: one_file_missing_prepared_def model_defs scenario_defs one_file_missing_def)
  from p r d c show ?thesis by simp
qed

lemma set_document_status_rows:
  "set_document_status st d PENDING None None = (r, st') \<Longrightarrow>
     r = Inr () \<and> current_run st' = current_run st
   \<and> runs (database st') = runs (database st)
   \<and> list_all2 (reset_row {d}) (documents (database st)) (documents (database st'))"
  by (auto simp: set_document_status_def update_document_status_def reset_row_def
      update_document_row_def list_all2_map2 intro!: list_all2_all_nthI)

lemma reset_row_compose:
  "reset_row {d} x y \<Longrightarrow> reset_row ids y z \<Longrightarrow> reset_row (insert d ids) x z"
  by (auto simp: reset_row_def split: if_splits)

lemma reset_to_pending_rows:
  "reset_to_pending docs st = (r, st') \<Longrightarrow>
     r = Inr () \<and> current_run st' = current_run st
   \<and> runs (database st') = runs (database st)
   \<and> list_all2 (reset_row (set (map doc_id docs))) (documents (database st))
        (documents (database st'))"
proof (induction docs arbitrary: st)
  case Nil
  then show ?case by (simp add: reset_row_def list_all2_same)
next
  case (Cons doc docs)
  obtain r1 st1 where s1: "set_document_status st (doc_id doc) PENDING None None = (r1, st1)"
    by (cases "set_document_status st (doc_id doc) PENDING None None") auto
  note p1 = set_document_status_rows [OF s1]
  with Cons.prems s1 have rest: "reset_to_pending docs st1 = (r, st')" by simp
  note p2 = Cons.IH [OF rest]
  have "list_all2 (reset_row (insert (doc_id doc) (set (map doc_id docs))))
          (documents (database st)) (documents (database st'))"
  proof (rule list_all2_trans)
    show "reset_row {doc_id doc} a b \<Longrightarrow> reset_row (set (map doc_id docs)) b c \<Longrightarrow>
          reset_row (insert (doc_id doc) (set (map doc_id docs))) a c" for a b c
      by (rule reset_row_compose)
    show "list_all2 (reset_row {doc_id doc}) (documents (database st)) (documents (database st1))"
      using p1 by simp
    show "list_all2 (reset_row (set (map doc_id docs))) (documents (database st1))
            (documents (database st'))"
      using p2 by simp
  qed
  with p1 p2 show ?case by simp
qed

text \<open>
  Claim C6. When the \<open>try\<close> block of \<open>migrate\<close> is left by a \<open>CancelledError\<close> while a run
  with an id is current: the exception that reaches the caller is the \<open>CancelledError\<close>
  itself (the run's error log is not touched); no document row is dropped or moved to
  another run; every row of the run that was \<open>IN_PROGRESS\<close> is \<open>PENDING\<close>, no row of the run is
  \<open>IN_PROGRESS\<close>, and a row whose status changed is \<open>PENDING\<close>; and the stored row of the run
  holds the run's current counters and error log.
\<close>

theorem C6_cancellation:
  assumes "current_run st = Some run" and "run_id run = Some rid"
  shows "\<exists>st'. migrate_except CancelledError st = (CancelledError, st')
           \<and> current_run st' = Some run
           \<and> list_all2
                (\<lambda>old new. fst new = fst old \<and> doc_id (snd new) = doc_id (snd old)
                   \<and> (fst old = rid \<and> status (snd old) = IN_PROGRESS \<longrightarrow> status (snd new) = PENDING)
                   \<and> (fst new = rid \<longrightarrow> status (snd new) \<noteq> IN_PROGRESS)
                   \<and> (status (snd new) \<noteq> status (snd old) \<longrightarrow> status (snd new) = PENDING))
                (documents (database st)) (documents (database st'))
           \<and> list_all2
                (\<lambda>old new. run_id new = run_id old
                   \<and> (run_id old = Some rid \<longrightarrow>
                         successful_documents new = successful_documents run
                       \<and> failed_documents new = failed_documents run
                       \<and> skipped_documents new = skipped_documents run
                       \<and> successful_attachments new = successful_attachments run
                       \<and> failed_attachments new = failed_attachments run
                       \<and> error_log new = error_log run))
                (runs (database st)) (runs (database st'))"
proof -
  let ?docs = "get_documents_by_status (database st) (Some rid) IN_PROGRESS"
  obtain r st1 where rs: "reset_to_pending ?docs st = (r, st1)"
    by (cases "reset_to_pending ?docs st") auto
  note p = reset_to_pending_rows [OF rs]
  let ?st' = "st1\<lparr>database := update_migration_run (database st1) run\<rparr>"
  have m: "migrate_except CancelledError st = (CancelledError, ?st')"
    using assms rs p by (simp add: migrate_except_def handle_cancellation_def)
  have ids: "doc_id (snd row) \<in> set (map doc_id ?docs)"
    if "row \<in> set (documents (database st))" "fst row = rid" "status (snd row) = IN_PROGRESS"
    for row
    using that by (force simp: get_documents_by_status_def)
  have rows: "list_all2
                (\<lambda>old new. fst new = fst old \<and> doc_id (snd new) = doc_id (snd old)
                   \<and> (fst old = rid \<and> status (snd old) = IN_PROGRESS \<longrightarrow> status (snd new) = PENDING)
                   \<and> (fst new = rid \<longrightarrow> status (snd new) \<noteq> IN_PROGRESS)
                   \<and> (status (snd new) \<noteq> status (snd old) \<longrightarrow> status (snd new) = PENDING))
                (documents (database st)) (documents (database st1))"
  proof (rule list_all2_mono)
    show "list_all2 (\<lambda>old new. old \<in> set (documents (database st))
              \<and> reset_row (set (map doc_id ?docs)) old new)
            (documents (database st)) (documents (database st1))"
      using p by (auto simp: list_all2_conv_all_nth)
  next
    fix old new
    assume "old \<in> set (documents (database st)) \<and> reset_row (set (map doc_id ?docs)) old new"
    then show "fst new = fst old \<and> doc_id (snd new) = doc_id (snd old)
                   \<and> (fst old = rid \<and> status (snd old) = IN_PROGRESS \<longrightarrow> status (snd new) = PENDING)
                   \<and> (fst new = rid \<longrightarrow> status (snd new) \<noteq> IN_PROGRESS)
                   \<and> (status (snd new) \<noteq> status (snd old) \<longrightarrow> status (snd new) = PENDING)"
      using ids [of old] unfolding reset_row_def by (auto split: if_splits)
  qed
  have runs': "list_all2
                (\<lambda>old new. run_id new = run_id old
                   \<and> (run_id old = Some rid \<longrightarrow>
                         successful_documents new = successful_documents run
                       \<and> failed_documents new = failed_documents run
                       \<and> skipped_documents new = skipped_documents run
                       \<and> successful_attachments new = successful_attachments run
                       \<and> failed_attachments new = failed_attachments run
                       \<and> error_log new = error_log run))
                (runs (database st)) (runs (database ?st'))"
    using p assms
    by (auto simp: update_migration_run_def update_run_row_def list_all2_map2
        intro!: list_all2_all_nthI)
  show ?thesis
    apply (rule exI [of _ ?st'])
    using m rows runs' p assms by (simp add: update_migration_run_def)
qed

theorem C6_cancellation_witness:
  "fst (migrate_except CancelledError interrupted) = CancelledError
   \<and> map (\<lambda>row. (doc_id (snd row), status (snd row)))
        (documents (database interrupted))
      = [(''D1'', PENDING), (''D2'', IN_PROGRESS), (''D3'', PENDING)]
   \<and> map (\<lambda>row. (doc_id (snd row), status (snd row)))
        (documents (database (snd (migrate_except CancelledError interrupted))))
      = [(''D1'', PENDING), (''D2'', PENDING), (''D3'', PENDING)]
   \<and> map successful_attachments (runs (database interrupted)) = [0]
   \<and> map successful_attachments
        (runs (database (snd (migrate_except CancelledError interrupted)))) = [1]"
proof -
  have h1: "current_run interrupted = Some (the (current_run interrupted))"
    by (simp add: interrupted_def three_documents_prepared_def model_defs scenario_defs)
  have h2: "run_id (the (current_run interrupted)) = Some 1"
    by (simp add: interrupted_def three_documents_prepared_def model_defs scenario_defs)
  from C6_cancellation [OF h1 h2]
  obtain st' where m: "migrate_except CancelledError interrupted = (CancelledError, st')"
    by blast
  have before: "map (\<lambda>row. (doc_id (snd row), status (snd row)))
        (documents (database interrupted))
      = [(''D1'', PENDING), (''D2'', IN_PROGRESS), (''D3'', PENDING)]
      \<and> map successful_attachments (runs (database interrupted)) = [0]"
    by (simp add: interrupted_def three_documents_prepared_def model_defs scenario_defs)
  have after: "map (\<lambda>row. (doc_id (snd row), status (snd row)))
        (documents (database (snd (migrate_except CancelledError interrupted))))
      = [(''D1'', PENDING), (''D2'', PENDING), (''D3'', PENDING)]
      \<and> map successful_attachments
        (runs (database (snd (migrate_except CancelledError interrupted)))) = [1]"
    by (simp add: migrate_except_def handle_cancellation_def interrupted_def
        three_documents_prepared_def model_defs scenario_defs)
  from m before after show ?thesis by simp
qed

text \<open>Whatever the state, also without a current run, the \<open>CancelledError\<close> is raised again.\<close>

lemma cancellation_always_propagates: "fst (migrate_except CancelledError st) = CancelledError"
proof (cases "current_run st")
  case None
  then show ?thesis by (simp add: migrate_except_def handle_cancellation_def)
next
  case (Some run)
  obtain r st1 where rs: "reset_to_pending
      (get_documents_by_status (database st) (run_id run) IN_PROGRESS) st = (r, st1)"
    by (cases "reset_to_pending
      (get_documents_by_status (database st) (run_id run) IN_PROGRESS) st") auto
  from reset_to_pending_rows [OF rs] have "r = Inr ()" by simp
  with Some rs show ?thesis by (simp add: migrate_except_def handle_cancellation_def)
qed

end
